theory Spec2Isabelle
  imports Complex_Main
begin

section \<open>The Star Wars favourites API: data model\<close>

text \<open>
  The program is a Flask application (\<^verbatim>\<open>src/app.py\<close>) over four SQLAlchemy tables
  (\<^verbatim>\<open>src/models.py\<close>). A table is the list of its rows in storage order; a handler
  takes the store and returns the response the client gets together with the store it
  leaves behind. A response is a body and an HTTP status.

  Modelling decisions, all taken from the source:
  \<^item> Column types follow \<^verbatim>\<open>models.py\<close>: ids are integers (\<open>int\<close>), text columns
    are \<open>string\<close>, the two nullable foreign keys of \<^verbatim>\<open>Favorite\<close> are
    \<open>int option\<close> (\<open>None\<close> is SQL NULL).
  \<^item> The store is the default one of \<^verbatim>\<open>app.py\<close> (SQLite): a new row of a table with
    an integer primary key gets one more than the largest key in use, and 1 in an empty
    table. Column lengths and foreign keys are not enforced there. An integer that a
    query binds must fit 64 bits, or the driver raises \<^verbatim>\<open>OverflowError\<close>.
  \<^item> An exception that leaves a view function makes Flask answer 500 with its own
    HTML page; nothing was committed, so the store is as before.
  \<^item> The route converter \<^verbatim>\<open><int:...>\<close> accepts every string of digits, so the id
    a handler gets from the path is a natural number without a bound.
  \<^item> \<^verbatim>\<open>jwt_required\<close>, \<^verbatim>\<open>get_jwt_identity\<close> and
    \<^verbatim>\<open>create_access_token\<close> belong to the library flask_jwt_extended. A protected
    handler is modelled from the point where the guard has accepted the request, with
    the identity \<^verbatim>\<open>get_jwt_identity()\<close> returns as its first argument: the id
    of the user row for which \<open>login\<close> issued the token.
    \<^verbatim>\<open>create_access_token\<close> is a parameter of \<open>login\<close>.
  \<^item> The body of \<^verbatim>\<open>/signup\<close> is the JSON value \<^verbatim>\<open>request.get_json()\<close>
    returns, whatever its shape; a request that carries no JSON is answered by
    \<^verbatim>\<open>get_json\<close> itself and is not a value of this type. What the database
    driver makes of a member that is neither falsy nor a string (a number,
    \<^verbatim>\<open>true\<close>, an array, an object) is a parameter of \<open>signup\<close>: the text it
    binds the value as, or a refusal.
  \<^item> The body of \<^verbatim>\<open>/login\<close> is an object whose \<^verbatim>\<open>email\<close> and
    \<^verbatim>\<open>password\<close> members are strings when present.
\<close>

text \<open>
  JSON values as Python's \<^verbatim>\<open>json\<close> module reads them. \<open>JInt\<close> is a Python
  \<^verbatim>\<open>int\<close>; \<open>JFloat\<close> a finite Python \<^verbatim>\<open>float\<close>, as the real number it
  denotes.
\<close>

datatype json =
    JNull
  | JBool bool
  | JInt int
  | JFloat real
  | JStr string
  | JList "json list"
  | JObj "(string \<times> json) list"

text \<open>
  A response body is what \<^verbatim>\<open>jsonify\<close> was given, or the HTML page Flask renders
  for an error of its own.
\<close>

datatype body = Json json | Html

type_synonym response = "body \<times> nat"

text \<open>Reading a member of a JSON object in a response, as a client of the API does.\<close>

fun json_field :: "string \<Rightarrow> body \<Rightarrow> json option" where
  "json_field k (Json (JObj kvs)) = map_of kvs k"
| "json_field k _ = None"

record User =
  user_id :: int
  user_email :: string
  user_password :: string
  user_is_active :: bool

record People =
  people_id :: int
  people_name :: string
  people_birth_year :: string
  people_gender :: string

record Planet =
  planet_id :: int
  planet_name :: string
  planet_climate :: string
  planet_terrain :: string

record Favorite =
  favorite_id :: int
  favorite_user_id :: int
  favorite_people_id :: "int option"
  favorite_planet_id :: "int option"

record store =
  user_rows :: "User list"
  people_rows :: "People list"
  planet_rows :: "Planet list"
  favorite_rows :: "Favorite list"

subsection \<open>Serialisers (\<^verbatim>\<open>models.py\<close>)\<close>

definition User_serialize :: "User \<Rightarrow> json" where
  "User_serialize u = JObj [(''id'', JInt (user_id u)), (''email'', JStr (user_email u))]"

definition People_serialize :: "People \<Rightarrow> json" where
  "People_serialize p =
     JObj [(''id'', JInt (people_id p)), (''name'', JStr (people_name p)),
           (''birth_year'', JStr (people_birth_year p)), (''gender'', JStr (people_gender p))]"

definition Planet_serialize :: "Planet \<Rightarrow> json" where
  "Planet_serialize p =
     JObj [(''id'', JInt (planet_id p)), (''name'', JStr (planet_name p)),
           (''climate'', JStr (planet_climate p)), (''terrain'', JStr (planet_terrain p))]"

definition json_nullable_int :: "int option \<Rightarrow> json" where
  "json_nullable_int v = (case v of None \<Rightarrow> JNull | Some i \<Rightarrow> JInt i)"

definition Favorite_serialize :: "Favorite \<Rightarrow> json" where
  "Favorite_serialize f =
     JObj [(''id'', JInt (favorite_id f)), (''user_id'', JInt (favorite_user_id f)),
           (''people_id'', json_nullable_int (favorite_people_id f)),
           (''planet_id'', json_nullable_int (favorite_planet_id f))]"

subsection \<open>Exceptions\<close>

text \<open>
  The exceptions that can leave a view function of \<^verbatim>\<open>app.py\<close>:
  \<^verbatim>\<open>data.get\<close> on a body that is not a dictionary, an integer parameter beyond
  64 bits, a parameter the driver cannot bind at all.
\<close>

datatype py_error = AttributeError | OverflowError | DriverError

definition internal_server_error :: "store \<Rightarrow> response \<times> store" where
  "internal_server_error s = ((Html, 500), s)"

subsection \<open>Queries\<close>

text \<open>
  \<^verbatim>\<open>Model.query.filter_by(...)\<close> is \<open>filter\<close> on the table, \<^verbatim>\<open>.all()\<close> the
  resulting list, \<^verbatim>\<open>.first()\<close> its first row or \<^verbatim>\<open>None\<close>, and
  \<^verbatim>\<open>Model.query.get(k)\<close> the row whose primary key is \<open>k\<close> or \<^verbatim>\<open>None\<close>.
  A query that binds the id from the path raises when the id does not fit 64 bits.
\<close>

definition sqlite_integer :: "int \<Rightarrow> bool" where
  "sqlite_integer k = (- 9223372036854775808 \<le> k \<and> k \<le> 9223372036854775807)"

definition bind_integer :: "int \<Rightarrow> py_error + int" where
  "bind_integer k = (if sqlite_integer k then Inr k else Inl OverflowError)"

definition first_row :: "'a list \<Rightarrow> 'a option" where
  "first_row rows = (case rows of [] \<Rightarrow> None | r # _ \<Rightarrow> Some r)"

definition query_get :: "('a \<Rightarrow> int) \<Rightarrow> int \<Rightarrow> 'a list \<Rightarrow> py_error + 'a option" where
  "query_get pk k rows =
     (case bind_integer k of
        Inl e \<Rightarrow> Inl e
      | Inr k' \<Rightarrow> Inr (first_row (filter (\<lambda>r. pk r = k') rows)))"

text \<open>The primary key the store gives to a row added to a table with keys \<open>ks\<close>.\<close>

definition next_id :: "int list \<Rightarrow> int" where
  "next_id ks = (case ks of [] \<Rightarrow> 1 | k # ks' \<Rightarrow> fold max ks' k + 1)"

text \<open>\<^verbatim>\<open>db.session.delete(row)\<close>: the row with that primary key leaves the table.\<close>

definition delete_favorite :: "Favorite \<Rightarrow> Favorite list \<Rightarrow> Favorite list" where
  "delete_favorite fav rows = filter (\<lambda>f. favorite_id f \<noteq> favorite_id fav) rows"

definition favorites_of :: "int \<Rightarrow> store \<Rightarrow> Favorite list" where
  "favorites_of current_user_id s =
     filter (\<lambda>f. favorite_user_id f = current_user_id) (favorite_rows s)"

section \<open>Handlers (\<^verbatim>\<open>app.py\<close>)\<close>

subsection \<open>The body of a signup request\<close>

text \<open>
  \<^verbatim>\<open>json.loads\<close> keeps the last of several members with one name;
  \<^verbatim>\<open>data.get(k)\<close> gives \<^verbatim>\<open>None\<close>, which is JSON's \<^verbatim>\<open>null\<close>, for an
  absent member, and raises when \<open>data\<close> is not a dictionary.
\<close>

definition json_member :: "(string \<times> json) list \<Rightarrow> string \<Rightarrow> json option" where
  "json_member kvs k = map_of (rev kvs) k"

definition member_value :: "(string \<times> json) list \<Rightarrow> string \<Rightarrow> json" where
  "member_value kvs k = (case json_member kvs k of None \<Rightarrow> JNull | Some v \<Rightarrow> v)"

definition py_dict_get :: "json \<Rightarrow> string \<Rightarrow> py_error + json" where
  "py_dict_get data k =
     (case data of
        JObj kvs \<Rightarrow> Inr (member_value kvs k)
      | _ \<Rightarrow> Inl AttributeError)"

text \<open>Python's \<^verbatim>\<open>not x\<close> for a value \<open>x\<close> read from JSON.\<close>

fun py_not :: "json \<Rightarrow> bool" where
  "py_not JNull = True"
| "py_not (JBool b) = (\<not> b)"
| "py_not (JInt i) = (i = 0)"
| "py_not (JFloat x) = (x = 0)"
| "py_not (JStr str) = (str = [])"
| "py_not (JList vs) = (vs = [])"
| "py_not (JObj kvs) = (kvs = [])"

text \<open>
  The text a value is compared and stored as in a text column: a string is itself, for
  any other value the driver (\<open>bind_text\<close>) decides, and may refuse.
\<close>

definition sql_text :: "(json \<Rightarrow> string option) \<Rightarrow> json \<Rightarrow> py_error + string" where
  "sql_text bind_text v =
     (case v of
        JStr str \<Rightarrow> Inr str
      | _ \<Rightarrow> (case bind_text v of None \<Rightarrow> Inl DriverError | Some str \<Rightarrow> Inr str))"

subsection \<open>The view functions\<close>

text \<open>The JSON body of a login request.\<close>

record credentials =
  body_email :: "string option"
  body_password :: "string option"

definition handle_hello :: "store \<Rightarrow> response \<times> store" where
  "handle_hello s =
     ((Json (JObj [(''msg'', JStr ''Hello, this is your GET /user response'')]), 200), s)"

definition signup :: "(json \<Rightarrow> string option) \<Rightarrow> json \<Rightarrow> store \<Rightarrow> response \<times> store" where
  "signup bind_text data s =
     (case py_dict_get data ''email'' of
        Inl e \<Rightarrow> internal_server_error s
      | Inr email \<Rightarrow>
     (case py_dict_get data ''password'' of
        Inl e \<Rightarrow> internal_server_error s
      | Inr password \<Rightarrow>
      if py_not email \<or> py_not password then
        ((Json (JObj [(''error'', JStr ''Missing email or password'')]), 400), s)
      else
     (case sql_text bind_text email of
        Inl e \<Rightarrow> internal_server_error s
      | Inr email_text \<Rightarrow>
      if first_row (filter (\<lambda>u. user_email u = email_text) (user_rows s)) \<noteq> None then
        ((Json (JObj [(''error'', JStr ''Email already exists'')]), 400), s)
      else
     (case sql_text bind_text password of
        Inl e \<Rightarrow> internal_server_error s
      | Inr password_text \<Rightarrow>
        let user = \<lparr>user_id = next_id (map user_id (user_rows s)),
                    user_email = email_text, user_password = password_text,
                    user_is_active = True\<rparr> in
        ((Json (JObj [(''msg'', JStr ''User created'')]), 201),
         s\<lparr>user_rows := user_rows s @ [user]\<rparr>)))))"

definition login :: "(int \<Rightarrow> string) \<Rightarrow> credentials \<Rightarrow> store \<Rightarrow> response \<times> store" where
  "login create_access_token data s =
     (let email = body_email data; password = body_password data in
      case first_row (filter (\<lambda>u. Some (user_email u) = email \<and> Some (user_password u) = password)
                        (user_rows s)) of
        None \<Rightarrow> ((Json (JObj [(''error'', JStr ''Invalid credentials'')]), 401), s)
      | Some user \<Rightarrow>
          ((Json (JObj [(''token'', JStr (create_access_token (user_id user)))]), 200), s))"

definition get_people :: "store \<Rightarrow> response \<times> store" where
  "get_people s = ((Json (JList (map People_serialize (people_rows s))), 200), s)"

definition get_person :: "nat \<Rightarrow> store \<Rightarrow> response \<times> store" where
  "get_person pid s =
     (case query_get people_id (int pid) (people_rows s) of
        Inl e \<Rightarrow> internal_server_error s
      | Inr None \<Rightarrow> ((Json (JObj [(''error'', JStr ''Person not found'')]), 404), s)
      | Inr (Some person) \<Rightarrow> ((Json (People_serialize person), 200), s))"

definition get_planets :: "store \<Rightarrow> response \<times> store" where
  "get_planets s = ((Json (JList (map Planet_serialize (planet_rows s))), 200), s)"

definition get_planet :: "nat \<Rightarrow> store \<Rightarrow> response \<times> store" where
  "get_planet pid s =
     (case query_get planet_id (int pid) (planet_rows s) of
        Inl e \<Rightarrow> internal_server_error s
      | Inr None \<Rightarrow> ((Json (JObj [(''error'', JStr ''Planet not found'')]), 404), s)
      | Inr (Some planet) \<Rightarrow> ((Json (Planet_serialize planet), 200), s))"

definition get_users :: "store \<Rightarrow> response \<times> store" where
  "get_users s = ((Json (JList (map User_serialize (user_rows s))), 200), s)"

definition get_favorites :: "int \<Rightarrow> store \<Rightarrow> response \<times> store" where
  "get_favorites current_user_id s =
     ((Json (JList (map Favorite_serialize (favorites_of current_user_id s))), 200), s)"

definition add_favorite_planet :: "int \<Rightarrow> nat \<Rightarrow> store \<Rightarrow> response \<times> store" where
  "add_favorite_planet current_user_id pid s =
     (case query_get planet_id (int pid) (planet_rows s) of
        Inl e \<Rightarrow> internal_server_error s
      | Inr None \<Rightarrow> ((Json (JObj [(''error'', JStr ''Planet not found'')]), 404), s)
      | Inr (Some planet) \<Rightarrow>
          (case first_row (filter (\<lambda>f. favorite_user_id f = current_user_id \<and>
                                        favorite_planet_id f = Some (int pid)) (favorite_rows s)) of
             Some ex \<Rightarrow> ((Json (JObj [(''msg'', JStr ''Planet already in favorites'')]), 400), s)
           | None \<Rightarrow>
               let fav = \<lparr>favorite_id = next_id (map favorite_id (favorite_rows s)),
                          favorite_user_id = current_user_id,
                          favorite_people_id = None, favorite_planet_id = Some (int pid)\<rparr>;
                   s' = s\<lparr>favorite_rows := favorite_rows s @ [fav]\<rparr>
               in ((Json (JList (map Favorite_serialize (favorites_of current_user_id s'))), 200),
                   s')))"

definition add_favorite_person :: "int \<Rightarrow> nat \<Rightarrow> store \<Rightarrow> response \<times> store" where
  "add_favorite_person current_user_id pid s =
     (case query_get people_id (int pid) (people_rows s) of
        Inl e \<Rightarrow> internal_server_error s
      | Inr None \<Rightarrow> ((Json (JObj [(''error'', JStr ''Person not found'')]), 404), s)
      | Inr (Some person) \<Rightarrow>
          (case first_row (filter (\<lambda>f. favorite_user_id f = current_user_id \<and>
                                        favorite_people_id f = Some (int pid)) (favorite_rows s)) of
             Some ex \<Rightarrow> ((Json (JObj [(''msg'', JStr ''Person already in favorites'')]), 400), s)
           | None \<Rightarrow>
               let fav = \<lparr>favorite_id = next_id (map favorite_id (favorite_rows s)),
                          favorite_user_id = current_user_id,
                          favorite_people_id = Some (int pid), favorite_planet_id = None\<rparr>;
                   s' = s\<lparr>favorite_rows := favorite_rows s @ [fav]\<rparr>
               in ((Json (JList (map Favorite_serialize (favorites_of current_user_id s'))), 200),
                   s')))"

definition remove_favorite_planet :: "int \<Rightarrow> nat \<Rightarrow> store \<Rightarrow> response \<times> store" where
  "remove_favorite_planet current_user_id pid s =
     (case bind_integer (int pid) of
        Inl e \<Rightarrow> internal_server_error s
      | Inr k \<Rightarrow>
     (case first_row (filter (\<lambda>f. favorite_user_id f = current_user_id \<and>
                                   favorite_planet_id f = Some k) (favorite_rows s)) of
        None \<Rightarrow> ((Json (JObj [(''error'', JStr ''Favorite planet not found'')]), 404), s)
      | Some fav \<Rightarrow>
          let s' = s\<lparr>favorite_rows := delete_favorite fav (favorite_rows s)\<rparr>
          in ((Json (JList (map Favorite_serialize (favorites_of current_user_id s'))), 200),
              s')))"

definition remove_favorite_person :: "int \<Rightarrow> nat \<Rightarrow> store \<Rightarrow> response \<times> store" where
  "remove_favorite_person current_user_id pid s =
     (case bind_integer (int pid) of
        Inl e \<Rightarrow> internal_server_error s
      | Inr k \<Rightarrow>
     (case first_row (filter (\<lambda>f. favorite_user_id f = current_user_id \<and>
                                   favorite_people_id f = Some k) (favorite_rows s)) of
        None \<Rightarrow> ((Json (JObj [(''error'', JStr ''Favorite person not found'')]), 404), s)
      | Some fav \<Rightarrow>
          let s' = s\<lparr>favorite_rows := delete_favorite fav (favorite_rows s)\<rparr>
          in ((Json (JList (map Favorite_serialize (favorites_of current_user_id s'))), 200),
              s')))"

subsection \<open>The router\<close>

text \<open>
  One constructor per route of \<^verbatim>\<open>app.py\<close> that reaches a handler over the store.
  A request to a protected route carries the identity the guard extracted from its
  token; an id from the path is the natural number the converter parsed.
\<close>

datatype request =
    Hello
  | Signup json
  | Login credentials
  | GetPeople
  | GetPerson nat
  | GetPlanets
  | GetPlanet nat
  | GetUsers
  | GetFavorites int
  | AddFavoritePlanet int nat
  | AddFavoritePerson int nat
  | RemoveFavoritePlanet int nat
  | RemoveFavoritePerson int nat

fun dispatch ::
  "(int \<Rightarrow> string) \<Rightarrow> (json \<Rightarrow> string option) \<Rightarrow> request \<Rightarrow> store \<Rightarrow> response \<times> store" where
  "dispatch tok bind Hello s = handle_hello s"
| "dispatch tok bind (Signup data) s = signup bind data s"
| "dispatch tok bind (Login data) s = login tok data s"
| "dispatch tok bind GetPeople s = get_people s"
| "dispatch tok bind (GetPerson pid) s = get_person pid s"
| "dispatch tok bind GetPlanets s = get_planets s"
| "dispatch tok bind (GetPlanet pid) s = get_planet pid s"
| "dispatch tok bind GetUsers s = get_users s"
| "dispatch tok bind (GetFavorites u) s = get_favorites u s"
| "dispatch tok bind (AddFavoritePlanet u pid) s = add_favorite_planet u pid s"
| "dispatch tok bind (AddFavoritePerson u pid) s = add_favorite_person u pid s"
| "dispatch tok bind (RemoveFavoritePlanet u pid) s = remove_favorite_planet u pid s"
| "dispatch tok bind (RemoveFavoritePerson u pid) s = remove_favorite_person u pid s"

text \<open>Requests served one after the other; the store each leaves is the next one's.\<close>

fun serve ::
  "(int \<Rightarrow> string) \<Rightarrow> (json \<Rightarrow> string option) \<Rightarrow> store \<Rightarrow> request list \<Rightarrow> store" where
  "serve tok bind s [] = s"
| "serve tok bind s (r # rs) = serve tok bind (snd (dispatch tok bind r s)) rs"

fun is_login :: "request \<Rightarrow> bool" where
  "is_login (Login data) = True"
| "is_login _ = False"

subsection \<open>Counting favourites\<close>

definition planet_favorites :: "int \<Rightarrow> int \<Rightarrow> store \<Rightarrow> Favorite list" where
  "planet_favorites u pid s =
     filter (\<lambda>f. favorite_user_id f = u \<and> favorite_planet_id f = Some pid) (favorite_rows s)"

definition people_favorites :: "int \<Rightarrow> int \<Rightarrow> store \<Rightarrow> Favorite list" where
  "people_favorites u pid s =
     filter (\<lambda>f. favorite_user_id f = u \<and> favorite_people_id f = Some pid) (favorite_rows s)"

text \<open>A favourite links to exactly one of a person and a planet.\<close>

definition one_target :: "Favorite \<Rightarrow> bool" where
  "one_target f = ((favorite_people_id f = None) \<noteq> (favorite_planet_id f = None))"

text \<open>Two stores that differ at most in the passwords of their users.\<close>

definition user_public :: "User \<Rightarrow> int \<times> string \<times> bool" where
  "user_public u = (user_id u, user_email u, user_is_active u)"

definition same_but_passwords :: "store \<Rightarrow> store \<Rightarrow> bool" where
  "same_but_passwords s t =
     (map user_public (user_rows s) = map user_public (user_rows t) \<and>
      people_rows s = people_rows t \<and> planet_rows s = planet_rows t \<and>
      favorite_rows s = favorite_rows t)"

subsection \<open>Stores and library functions for concrete runs\<close>

text \<open>One user, one person, two planets, no favourites.\<close>

definition demo_store :: store where
  "demo_store =
     \<lparr>user_rows = [\<lparr>user_id = 1, user_email = ''a@b.com'', user_password = ''x'',
                    user_is_active = True\<rparr>],
      people_rows = [\<lparr>people_id = 1, people_name = ''Luke'', people_birth_year = ''19BBY'',
                      people_gender = ''male''\<rparr>],
      planet_rows = [\<lparr>planet_id = 1, planet_name = ''Tatooine'', planet_climate = ''arid'',
                      planet_terrain = ''desert''\<rparr>,
                     \<lparr>planet_id = 2, planet_name = ''Hoth'', planet_climate = ''frozen'',
                      planet_terrain = ''tundra''\<rparr>],
      favorite_rows = []\<rparr>"

text \<open>The same store after three favourites were added: two of user 1, one of user 2.\<close>

definition demo_favorites :: store where
  "demo_favorites =
     demo_store\<lparr>favorite_rows :=
       [\<lparr>favorite_id = 1, favorite_user_id = 1, favorite_people_id = None,
         favorite_planet_id = Some 1\<rparr>,
        \<lparr>favorite_id = 2, favorite_user_id = 1, favorite_people_id = Some 1,
         favorite_planet_id = None\<rparr>,
        \<lparr>favorite_id = 3, favorite_user_id = 2, favorite_people_id = None,
         favorite_planet_id = Some 1\<rparr>]\<rparr>"

text \<open>
  A store that no sequence of requests produces from \<open>demo_store\<close>, but that a table
  without a uniqueness constraint can hold: user 1 has planet 1 as a favourite twice.
\<close>

definition demo_duplicates :: store where
  "demo_duplicates =
     demo_store\<lparr>favorite_rows :=
       [\<lparr>favorite_id = 1, favorite_user_id = 1, favorite_people_id = None,
         favorite_planet_id = Some 1\<rparr>,
        \<lparr>favorite_id = 2, favorite_user_id = 1, favorite_people_id = None,
         favorite_planet_id = Some 1\<rparr>]\<rparr>"

definition demo_token :: "int \<Rightarrow> string" where
  "demo_token i = (if i = 1 then ''token-1'' else ''token'')"

text \<open>A driver that binds \<^verbatim>\<open>true\<close> as the text 1 and refuses every other value.\<close>

definition demo_bind :: "json \<Rightarrow> string option" where
  "demo_bind v = (if v = JBool True then Some ''1'' else None)"

section \<open>Facts about the queries\<close>

lemma first_row_filter_None:
  "(first_row (filter P rows) = None) = (\<forall>r\<in>set rows. \<not> P r)"
  by (induction rows) (auto simp: first_row_def)

lemma first_row_filter_Some:
  "first_row (filter P rows) = Some r \<Longrightarrow> r \<in> set rows \<and> P r"
  by (induction rows) (auto simp: first_row_def split: if_splits)

lemma first_row_filter_ex:
  "(\<exists>r\<in>set rows. P r) \<Longrightarrow> \<exists>r. first_row (filter P rows) = Some r"
  using first_row_filter_None [of P rows] by (cases "first_row (filter P rows)") auto

lemma query_get_overflow: "\<not> sqlite_integer k \<Longrightarrow> query_get pk k rows = Inl OverflowError"
  by (simp add: query_get_def bind_integer_def)

lemma query_get_None:
  "sqlite_integer k \<Longrightarrow> \<forall>r\<in>set rows. pk r \<noteq> k \<Longrightarrow> query_get pk k rows = Inr None"
  using first_row_filter_None [of "\<lambda>r. pk r = k" rows]
  by (simp add: query_get_def bind_integer_def)

lemma query_get_Some:
  "query_get pk k rows = Inr (Some r) \<Longrightarrow> r \<in> set rows \<and> pk r = k \<and> sqlite_integer k"
  by (auto simp: query_get_def bind_integer_def split: if_splits dest: first_row_filter_Some)

lemma query_get_ex:
  assumes "sqlite_integer k" and "\<exists>r\<in>set rows. pk r = k"
  shows "\<exists>r. query_get pk k rows = Inr (Some r)"
  using first_row_filter_ex [OF assms(2)] assms(1)
  by (simp add: query_get_def bind_integer_def)

lemma next_id_greater: "k \<in> set ks \<Longrightarrow> k < next_id ks"
proof (cases ks)
  case Nil
  assume "k \<in> set ks"
  with Nil show ?thesis by simp
next
  case (Cons a as)
  assume mem: "k \<in> set ks"
  have "fold max as a = Max (set (a # as))"
    by (simp only: Max.set_eq_fold)
  moreover have "k \<le> Max (set (a # as))"
    using mem Cons by (intro Max_ge) auto
  ultimately show ?thesis
    using Cons by (simp add: next_id_def)
qed

lemma next_id_fresh: "next_id ks \<notin> set ks"
  using next_id_greater [of "next_id ks" ks] by auto

section \<open>Adding a favourite\<close>

lemma add_favorite_planet_500:
  assumes "\<not> sqlite_integer (int p)"
  shows "add_favorite_planet u p s = ((Html, 500), s)"
  using assms by (simp add: add_favorite_planet_def query_get_overflow internal_server_error_def)

lemma add_favorite_planet_404:
  assumes "sqlite_integer (int p)" and "\<forall>pl\<in>set (planet_rows s). planet_id pl \<noteq> int p"
  shows "add_favorite_planet u p s =
           ((Json (JObj [(''error'', JStr ''Planet not found'')]), 404), s)"
  using assms by (simp add: add_favorite_planet_def query_get_None)

lemma add_favorite_planet_400:
  assumes "sqlite_integer (int p)" and "\<exists>pl\<in>set (planet_rows s). planet_id pl = int p"
    and "\<exists>f\<in>set (favorite_rows s). favorite_user_id f = u \<and> favorite_planet_id f = Some (int p)"
  shows "add_favorite_planet u p s =
           ((Json (JObj [(''msg'', JStr ''Planet already in favorites'')]), 400), s)"
proof -
  obtain pl where "query_get planet_id (int p) (planet_rows s) = Inr (Some pl)"
    using query_get_ex [OF assms(1,2)] by blast
  moreover obtain ex where "first_row (filter (\<lambda>f. favorite_user_id f = u \<and>
      favorite_planet_id f = Some (int p)) (favorite_rows s)) = Some ex"
    using first_row_filter_ex [OF assms(3)] by blast
  ultimately show ?thesis
    by (simp add: add_favorite_planet_def)
qed

lemma add_favorite_planet_200:
  assumes "sqlite_integer (int p)" and "\<exists>pl\<in>set (planet_rows s). planet_id pl = int p"
    and "\<forall>f\<in>set (favorite_rows s).
           \<not> (favorite_user_id f = u \<and> favorite_planet_id f = Some (int p))"
  shows "add_favorite_planet u p s =
           ((Json (JList (map Favorite_serialize
               (filter (\<lambda>f. favorite_user_id f = u) (favorite_rows s) @
                   [\<lparr>favorite_id = next_id (map favorite_id (favorite_rows s)),
                     favorite_user_id = u, favorite_people_id = None,
                     favorite_planet_id = Some (int p)\<rparr>]))), 200),
            s\<lparr>favorite_rows := favorite_rows s @
                   [\<lparr>favorite_id = next_id (map favorite_id (favorite_rows s)),
                     favorite_user_id = u, favorite_people_id = None,
                     favorite_planet_id = Some (int p)\<rparr>]\<rparr>)"
proof -
  obtain pl where "query_get planet_id (int p) (planet_rows s) = Inr (Some pl)"
    using query_get_ex [OF assms(1,2)] by blast
  moreover have "first_row (filter (\<lambda>f. favorite_user_id f = u \<and>
      favorite_planet_id f = Some (int p)) (favorite_rows s)) = None"
    using assms(3) by (simp only: first_row_filter_None)
  ultimately show ?thesis
    by (simp add: add_favorite_planet_def Let_def favorites_of_def)
qed

lemma add_favorite_person_500:
  assumes "\<not> sqlite_integer (int q)"
  shows "add_favorite_person u q s = ((Html, 500), s)"
  using assms by (simp add: add_favorite_person_def query_get_overflow internal_server_error_def)

lemma add_favorite_person_404:
  assumes "sqlite_integer (int q)" and "\<forall>pe\<in>set (people_rows s). people_id pe \<noteq> int q"
  shows "add_favorite_person u q s =
           ((Json (JObj [(''error'', JStr ''Person not found'')]), 404), s)"
  using assms by (simp add: add_favorite_person_def query_get_None)

lemma add_favorite_person_400:
  assumes "sqlite_integer (int q)" and "\<exists>pe\<in>set (people_rows s). people_id pe = int q"
    and "\<exists>f\<in>set (favorite_rows s). favorite_user_id f = u \<and> favorite_people_id f = Some (int q)"
  shows "add_favorite_person u q s =
           ((Json (JObj [(''msg'', JStr ''Person already in favorites'')]), 400), s)"
proof -
  obtain pe where "query_get people_id (int q) (people_rows s) = Inr (Some pe)"
    using query_get_ex [OF assms(1,2)] by blast
  moreover obtain ex where "first_row (filter (\<lambda>f. favorite_user_id f = u \<and>
      favorite_people_id f = Some (int q)) (favorite_rows s)) = Some ex"
    using first_row_filter_ex [OF assms(3)] by blast
  ultimately show ?thesis
    by (simp add: add_favorite_person_def)
qed

lemma add_favorite_person_200:
  assumes "sqlite_integer (int q)" and "\<exists>pe\<in>set (people_rows s). people_id pe = int q"
    and "\<forall>f\<in>set (favorite_rows s).
           \<not> (favorite_user_id f = u \<and> favorite_people_id f = Some (int q))"
  shows "add_favorite_person u q s =
           ((Json (JList (map Favorite_serialize
               (filter (\<lambda>f. favorite_user_id f = u) (favorite_rows s) @
                   [\<lparr>favorite_id = next_id (map favorite_id (favorite_rows s)),
                     favorite_user_id = u, favorite_people_id = Some (int q),
                     favorite_planet_id = None\<rparr>]))), 200),
            s\<lparr>favorite_rows := favorite_rows s @
                   [\<lparr>favorite_id = next_id (map favorite_id (favorite_rows s)),
                     favorite_user_id = u, favorite_people_id = Some (int q),
                     favorite_planet_id = None\<rparr>]\<rparr>)"
proof -
  obtain pe where "query_get people_id (int q) (people_rows s) = Inr (Some pe)"
    using query_get_ex [OF assms(1,2)] by blast
  moreover have "first_row (filter (\<lambda>f. favorite_user_id f = u \<and>
      favorite_people_id f = Some (int q)) (favorite_rows s)) = None"
    using assms(3) by (simp only: first_row_filter_None)
  ultimately show ?thesis
    by (simp add: add_favorite_person_def Let_def favorites_of_def)
qed

text \<open>
  Claim C1, as the code has it. For the authenticated user \<open>u\<close> and a planet id \<open>p\<close>
  that fits 64 bits, \<^verbatim>\<open>POST /api/favorite/planet/p\<close> answers 404 and leaves the
  store alone when no planet has id \<open>p\<close>; otherwise it answers 400 and leaves the store
  alone when a favourite of \<open>u\<close> for planet \<open>p\<close> exists; otherwise it appends exactly
  one favourite row, of user \<open>u\<close> and planet \<open>p\<close> and of no person, and answers 200
  with the serialised list of the rows of the new table whose user is \<open>u\<close>, in table
  order: the favourites \<open>u\<close> had, then the new row, and no row of another user. For an
  id beyond 64 bits the lookup raises in the driver: the answer is 500 and the store is
  left alone. The same holds for \<^verbatim>\<open>POST /api/favorite/people/q\<close> with people in
  place of planets.
\<close>

theorem add_favorite_spec:
  "(if \<not> sqlite_integer (int p) then
      snd (fst (add_favorite_planet u p s)) = 500 \<and> snd (add_favorite_planet u p s) = s
    else if \<not> (\<exists>pl\<in>set (planet_rows s). planet_id pl = int p) then
      snd (fst (add_favorite_planet u p s)) = 404 \<and> snd (add_favorite_planet u p s) = s
    else if \<exists>f\<in>set (favorite_rows s).
              favorite_user_id f = u \<and> favorite_planet_id f = Some (int p) then
      snd (fst (add_favorite_planet u p s)) = 400 \<and> snd (add_favorite_planet u p s) = s
    else
      (\<exists>fav. favorite_user_id fav = u \<and> favorite_planet_id fav = Some (int p) \<and>
             favorite_people_id fav = None \<and> fav \<notin> set (favorite_rows s) \<and>
             snd (add_favorite_planet u p s) = s\<lparr>favorite_rows := favorite_rows s @ [fav]\<rparr> \<and>
             fst (add_favorite_planet u p s) =
               (Json (JList (map Favorite_serialize
                  (filter (\<lambda>f. favorite_user_id f = u) (favorite_rows s) @ [fav]))), 200)))
   \<and>
   (if \<not> sqlite_integer (int q) then
      snd (fst (add_favorite_person u q s)) = 500 \<and> snd (add_favorite_person u q s) = s
    else if \<not> (\<exists>pe\<in>set (people_rows s). people_id pe = int q) then
      snd (fst (add_favorite_person u q s)) = 404 \<and> snd (add_favorite_person u q s) = s
    else if \<exists>f\<in>set (favorite_rows s).
              favorite_user_id f = u \<and> favorite_people_id f = Some (int q) then
      snd (fst (add_favorite_person u q s)) = 400 \<and> snd (add_favorite_person u q s) = s
    else
      (\<exists>fav. favorite_user_id fav = u \<and> favorite_people_id fav = Some (int q) \<and>
             favorite_planet_id fav = None \<and> fav \<notin> set (favorite_rows s) \<and>
             snd (add_favorite_person u q s) = s\<lparr>favorite_rows := favorite_rows s @ [fav]\<rparr> \<and>
             fst (add_favorite_person u q s) =
               (Json (JList (map Favorite_serialize
                  (filter (\<lambda>f. favorite_user_id f = u) (favorite_rows s) @ [fav]))), 200)))"
  (is "?for_planets \<and> ?for_people")
proof (intro conjI)
  let ?range = "sqlite_integer (int p)"
  let ?planet = "\<exists>pl\<in>set (planet_rows s). planet_id pl = int p"
  let ?dup = "\<exists>f\<in>set (favorite_rows s).
      favorite_user_id f = u \<and> favorite_planet_id f = Some (int p)"
  consider (overflow) "\<not> ?range" | (missing) ?range "\<not> ?planet" | (dup) ?range ?planet ?dup
    | (fresh) ?range ?planet "\<not> ?dup"
    by blast
  then show ?for_planets
  proof cases
    case overflow
    then show ?thesis by (simp add: add_favorite_planet_500)
  next
    case missing
    then show ?thesis by (simp add: add_favorite_planet_404)
  next
    case dup
    then show ?thesis by (simp add: add_favorite_planet_400)
  next
    case fresh
    let ?fav = "\<lparr>favorite_id = next_id (map favorite_id (favorite_rows s)),
        favorite_user_id = u, favorite_people_id = None, favorite_planet_id = Some (int p)\<rparr>"
    from fresh have none: "\<forall>f\<in>set (favorite_rows s).
        \<not> (favorite_user_id f = u \<and> favorite_planet_id f = Some (int p))"
      by blast
    then have "?fav \<notin> set (favorite_rows s)"
      by auto
    with add_favorite_planet_200 [OF fresh(1,2) none] fresh show ?thesis
      by (auto intro!: exI [of _ ?fav])
  qed
next
  let ?range = "sqlite_integer (int q)"
  let ?person = "\<exists>pe\<in>set (people_rows s). people_id pe = int q"
  let ?dup = "\<exists>f\<in>set (favorite_rows s).
      favorite_user_id f = u \<and> favorite_people_id f = Some (int q)"
  consider (overflow) "\<not> ?range" | (missing) ?range "\<not> ?person" | (dup) ?range ?person ?dup
    | (fresh) ?range ?person "\<not> ?dup"
    by blast
  then show ?for_people
  proof cases
    case overflow
    then show ?thesis by (simp add: add_favorite_person_500)
  next
    case missing
    then show ?thesis by (simp add: add_favorite_person_404)
  next
    case dup
    then show ?thesis by (simp add: add_favorite_person_400)
  next
    case fresh
    let ?fav = "\<lparr>favorite_id = next_id (map favorite_id (favorite_rows s)),
        favorite_user_id = u, favorite_people_id = Some (int q), favorite_planet_id = None\<rparr>"
    from fresh have none: "\<forall>f\<in>set (favorite_rows s).
        \<not> (favorite_user_id f = u \<and> favorite_people_id f = Some (int q))"
      by blast
    then have "?fav \<notin> set (favorite_rows s)"
      by auto
    with add_favorite_person_200 [OF fresh(1,2) none] fresh show ?thesis
      by (auto intro!: exI [of _ ?fav])
  qed
qed

text \<open>The definitions a concrete run unfolds.\<close>

lemmas demo_defs = demo_store_def demo_favorites_def demo_duplicates_def
  add_favorite_planet_def add_favorite_person_def remove_favorite_planet_def
  remove_favorite_person_def get_planet_def get_person_def query_get_def bind_integer_def
  sqlite_integer_def internal_server_error_def first_row_def favorites_of_def next_id_def
  delete_favorite_def Let_def planet_favorites_def people_favorites_def

text \<open>
  On a store where user 1 has two favourites and user 2 one, the list user 1 gets back
  holds her two rows and the new one, and not the row of user 2.
\<close>

theorem add_favorite_spec_witness:
  "map favorite_user_id (favorite_rows demo_favorites) = [1, 1, 2] \<and>
   fst (add_favorite_planet 1 2 demo_favorites) =
     (Json (JList
        [JObj [(''id'', JInt 1), (''user_id'', JInt 1), (''people_id'', JNull),
               (''planet_id'', JInt 1)],
         JObj [(''id'', JInt 2), (''user_id'', JInt 1), (''people_id'', JInt 1),
               (''planet_id'', JNull)],
         JObj [(''id'', JInt 4), (''user_id'', JInt 1), (''people_id'', JNull),
               (''planet_id'', JInt 2)]]), 200) \<and>
   map favorite_id (favorite_rows (snd (add_favorite_planet 1 2 demo_favorites))) =
     [1, 2, 3, 4] \<and>
   snd (fst (add_favorite_planet 1 7 demo_favorites)) = 404 \<and>
   snd (fst (add_favorite_planet 1 1 demo_favorites)) = 400 \<and>
   snd (fst (add_favorite_planet 1 9223372036854775808 demo_favorites)) = 500 \<and>
   fst (add_favorite_person 2 1 demo_favorites) =
     (Json (JList
        [JObj [(''id'', JInt 3), (''user_id'', JInt 2), (''people_id'', JNull),
               (''planet_id'', JInt 1)],
         JObj [(''id'', JInt 4), (''user_id'', JInt 2), (''people_id'', JInt 1),
               (''planet_id'', JNull)]]), 200)"
  using add_favorite_spec [where p = 2 and u = 1 and s = demo_favorites and q = 1]
    add_favorite_spec [where p = 7 and u = 1 and s = demo_favorites and q = 1]
    add_favorite_spec [where p = 1 and u = 1 and s = demo_favorites and q = 1]
    add_favorite_spec [where p = 9223372036854775808 and u = 1 and s = demo_favorites and q = 1]
    add_favorite_spec [where p = 1 and u = 2 and s = demo_favorites and q = 1]
  by (simp add: demo_defs Favorite_serialize_def json_nullable_int_def)

text \<open>
  Claim C1 as the spec words it fails at an id beyond 64 bits: no planet has the id, and
  the answer is 500, not 404.
\<close>

theorem add_favorite_overflow_counterexample:
  "map planet_id (planet_rows demo_store) = [1, 2] \<and>
   add_favorite_planet 1 9223372036854775808 demo_store = ((Html, 500), demo_store) \<and>
   map people_id (people_rows demo_store) = [1] \<and>
   add_favorite_person 1 9223372036854775808 demo_store = ((Html, 500), demo_store)"
  by (simp add: demo_defs)

section \<open>Adding the same favourite twice\<close>

lemma add_favorite_planet_again:
  assumes "sqlite_integer (int p)" and "\<exists>pl\<in>set (planet_rows s). planet_id pl = int p"
  shows "add_favorite_planet u p (snd (add_favorite_planet u p s)) =
           ((Json (JObj [(''msg'', JStr ''Planet already in favorites'')]), 400),
            snd (add_favorite_planet u p s))"
proof (cases "\<exists>f\<in>set (favorite_rows s).
    favorite_user_id f = u \<and> favorite_planet_id f = Some (int p)")
  case True
  then show ?thesis
    by (simp add: add_favorite_planet_400 [OF assms])
next
  case False
  then have none: "\<forall>f\<in>set (favorite_rows s).
      \<not> (favorite_user_id f = u \<and> favorite_planet_id f = Some (int p))"
    by blast
  show ?thesis
    unfolding add_favorite_planet_200 [OF assms none] snd_conv
    by (rule add_favorite_planet_400) (use assms in simp_all)
qed

lemma add_favorite_person_again:
  assumes "sqlite_integer (int q)" and "\<exists>pe\<in>set (people_rows s). people_id pe = int q"
  shows "add_favorite_person u q (snd (add_favorite_person u q s)) =
           ((Json (JObj [(''msg'', JStr ''Person already in favorites'')]), 400),
            snd (add_favorite_person u q s))"
proof (cases "\<exists>f\<in>set (favorite_rows s).
    favorite_user_id f = u \<and> favorite_people_id f = Some (int q)")
  case True
  then show ?thesis
    by (simp add: add_favorite_person_400 [OF assms])
next
  case False
  then have none: "\<forall>f\<in>set (favorite_rows s).
      \<not> (favorite_user_id f = u \<and> favorite_people_id f = Some (int q))"
    by blast
  show ?thesis
    unfolding add_favorite_person_200 [OF assms none] snd_conv
    by (rule add_favorite_person_400) (use assms in simp_all)
qed

text \<open>
  Claim C3. When planet \<open>p\<close> exists, a row of the table having \<open>p\<close> as its key,
  a 64-bit integer as every key the store holds, a second
  \<^verbatim>\<open>POST /api/favorite/planet/p\<close> by the same user, right after the first, answers 400
  and leaves the store as the first call left it; so the user's list of favourites, and
  its length, are the same before and after the second call. The same holds for an
  existing person \<open>q\<close> and \<^verbatim>\<open>POST /api/favorite/people/q\<close>.
\<close>

theorem add_favorite_twice:
  "((\<exists>pl\<in>set (planet_rows s). planet_id pl = int p \<and> sqlite_integer (planet_id pl)) \<longrightarrow>
      snd (fst (add_favorite_planet u p (snd (add_favorite_planet u p s)))) = 400 \<and>
      snd (add_favorite_planet u p (snd (add_favorite_planet u p s))) =
        snd (add_favorite_planet u p s) \<and>
      favorites_of u (snd (add_favorite_planet u p (snd (add_favorite_planet u p s)))) =
        favorites_of u (snd (add_favorite_planet u p s)) \<and>
      length (favorites_of u (snd (add_favorite_planet u p (snd (add_favorite_planet u p s))))) =
        length (favorites_of u (snd (add_favorite_planet u p s))))
   \<and>
   ((\<exists>pe\<in>set (people_rows s). people_id pe = int q \<and> sqlite_integer (people_id pe)) \<longrightarrow>
      snd (fst (add_favorite_person u q (snd (add_favorite_person u q s)))) = 400 \<and>
      snd (add_favorite_person u q (snd (add_favorite_person u q s))) =
        snd (add_favorite_person u q s) \<and>
      favorites_of u (snd (add_favorite_person u q (snd (add_favorite_person u q s)))) =
        favorites_of u (snd (add_favorite_person u q s)) \<and>
      length (favorites_of u (snd (add_favorite_person u q (snd (add_favorite_person u q s))))) =
        length (favorites_of u (snd (add_favorite_person u q s))))"
proof (intro conjI impI)
  assume "\<exists>pl\<in>set (planet_rows s). planet_id pl = int p \<and> sqlite_integer (planet_id pl)"
  then have "sqlite_integer (int p)" and "\<exists>pl\<in>set (planet_rows s). planet_id pl = int p"
    by auto
  note again = add_favorite_planet_again [OF this]
  show "snd (fst (add_favorite_planet u p (snd (add_favorite_planet u p s)))) = 400"
    and "snd (add_favorite_planet u p (snd (add_favorite_planet u p s))) =
        snd (add_favorite_planet u p s)"
    and "favorites_of u (snd (add_favorite_planet u p (snd (add_favorite_planet u p s)))) =
        favorites_of u (snd (add_favorite_planet u p s))"
    and "length (favorites_of u
          (snd (add_favorite_planet u p (snd (add_favorite_planet u p s))))) =
        length (favorites_of u (snd (add_favorite_planet u p s)))"
    by (simp_all add: again)
next
  assume "\<exists>pe\<in>set (people_rows s). people_id pe = int q \<and> sqlite_integer (people_id pe)"
  then have "sqlite_integer (int q)" and "\<exists>pe\<in>set (people_rows s). people_id pe = int q"
    by auto
  note again = add_favorite_person_again [OF this]
  show "snd (fst (add_favorite_person u q (snd (add_favorite_person u q s)))) = 400"
    and "snd (add_favorite_person u q (snd (add_favorite_person u q s))) =
        snd (add_favorite_person u q s)"
    and "favorites_of u (snd (add_favorite_person u q (snd (add_favorite_person u q s)))) =
        favorites_of u (snd (add_favorite_person u q s))"
    and "length (favorites_of u
          (snd (add_favorite_person u q (snd (add_favorite_person u q s))))) =
        length (favorites_of u (snd (add_favorite_person u q s)))"
    by (simp_all add: again)
qed

theorem add_favorite_twice_witness:
  "map planet_id (planet_rows demo_store) = [1, 2] \<and>
   map people_id (people_rows demo_store) = [1] \<and>
   length (favorites_of 1 (snd (add_favorite_planet 1 1 demo_store))) = 1 \<and>
   snd (fst (add_favorite_planet 1 1 (snd (add_favorite_planet 1 1 demo_store)))) = 400 \<and>
   length (favorites_of 1
     (snd (add_favorite_planet 1 1 (snd (add_favorite_planet 1 1 demo_store))))) = 1 \<and>
   snd (fst (add_favorite_person 1 1 (snd (add_favorite_person 1 1 demo_store)))) = 400"
proof -
  have planet: "\<exists>pl\<in>set (planet_rows demo_store).
      planet_id pl = int 1 \<and> sqlite_integer (planet_id pl)"
    by (simp add: demo_store_def sqlite_integer_def)
  have person: "\<exists>pe\<in>set (people_rows demo_store).
      people_id pe = int 1 \<and> sqlite_integer (people_id pe)"
    by (simp add: demo_store_def sqlite_integer_def)
  have first: "length (favorites_of 1 (snd (add_favorite_planet 1 1 demo_store))) = 1"
    by (simp add: demo_defs)
  from add_favorite_twice [where s = demo_store and p = 1 and u = 1 and q = 1]
    planet person first show ?thesis
    by (simp add: demo_store_def)
qed

section \<open>Reading one planet or one person\<close>

text \<open>
  Claim C8, as the code has it. For a planet id \<open>p\<close> that fits 64 bits,
  \<^verbatim>\<open>GET /api/planets/p\<close> answers 200 with the serialisation of a planet row whose
  id is \<open>p\<close>, a JSON object whose \<^verbatim>\<open>id\<close> member is \<open>p\<close>, when the table has
  a planet with id \<open>p\<close>, and 404 when it has none. For an id beyond 64 bits the lookup
  raises in the driver and the answer is 500. The store is unchanged in every case. The
  same holds for \<^verbatim>\<open>GET /api/people/q\<close>.
\<close>

theorem get_by_id_spec:
  "(if \<not> sqlite_integer (int p) then snd (fst (get_planet p s)) = 500
    else if \<exists>pl\<in>set (planet_rows s). planet_id pl = int p then
      snd (fst (get_planet p s)) = 200 \<and>
      json_field ''id'' (fst (fst (get_planet p s))) = Some (JInt (int p)) \<and>
      (\<exists>pl\<in>set (planet_rows s). planet_id pl = int p \<and>
         fst (fst (get_planet p s)) = Json (Planet_serialize pl))
    else snd (fst (get_planet p s)) = 404) \<and>
   snd (get_planet p s) = s \<and>
   (if \<not> sqlite_integer (int q) then snd (fst (get_person q s)) = 500
    else if \<exists>pe\<in>set (people_rows s). people_id pe = int q then
      snd (fst (get_person q s)) = 200 \<and>
      json_field ''id'' (fst (fst (get_person q s))) = Some (JInt (int q)) \<and>
      (\<exists>pe\<in>set (people_rows s). people_id pe = int q \<and>
         fst (fst (get_person q s)) = Json (People_serialize pe))
    else snd (fst (get_person q s)) = 404) \<and>
   snd (get_person q s) = s"
  (is "?planet \<and> ?planet_store \<and> ?person \<and> ?person_store")
proof (intro conjI)
  show ?planet
  proof (cases "query_get planet_id (int p) (planet_rows s)")
    case (Inl e)
    then have "\<not> sqlite_integer (int p)"
      by (auto simp: query_get_def bind_integer_def split: if_splits)
    with Inl show ?thesis
      by (simp add: get_planet_def internal_server_error_def)
  next
    case (Inr found)
    then have range: "sqlite_integer (int p)"
      by (auto simp: query_get_def bind_integer_def split: if_splits)
    show ?thesis
    proof (cases found)
      case None
      with Inr range have "\<forall>pl\<in>set (planet_rows s). planet_id pl \<noteq> int p"
        by (simp add: query_get_def bind_integer_def first_row_filter_None)
      with Inr None range show ?thesis
        by (simp add: get_planet_def)
    next
      case (Some pl)
      with Inr query_get_Some [of planet_id "int p" "planet_rows s" pl] range show ?thesis
        by (auto simp: get_planet_def Planet_serialize_def)
    qed
  qed
  show ?planet_store
    by (simp add: get_planet_def internal_server_error_def split: sum.split option.split)
  show ?person
  proof (cases "query_get people_id (int q) (people_rows s)")
    case (Inl e)
    then have "\<not> sqlite_integer (int q)"
      by (auto simp: query_get_def bind_integer_def split: if_splits)
    with Inl show ?thesis
      by (simp add: get_person_def internal_server_error_def)
  next
    case (Inr found)
    then have range: "sqlite_integer (int q)"
      by (auto simp: query_get_def bind_integer_def split: if_splits)
    show ?thesis
    proof (cases found)
      case None
      with Inr range have "\<forall>pe\<in>set (people_rows s). people_id pe \<noteq> int q"
        by (simp add: query_get_def bind_integer_def first_row_filter_None)
      with Inr None range show ?thesis
        by (simp add: get_person_def)
    next
      case (Some pe)
      with Inr query_get_Some [of people_id "int q" "people_rows s" pe] range show ?thesis
        by (auto simp: get_person_def People_serialize_def)
    qed
  qed
  show ?person_store
    by (simp add: get_person_def internal_server_error_def split: sum.split option.split)
qed

theorem get_by_id_spec_witness:
  "get_planet 2 demo_store =
     ((Json (JObj [(''id'', JInt 2), (''name'', JStr ''Hoth''), (''climate'', JStr ''frozen''),
             (''terrain'', JStr ''tundra'')]), 200), demo_store) \<and>
   snd (fst (get_planet 3 demo_store)) = 404 \<and>
   snd (fst (get_planet 9223372036854775807 demo_store)) = 404 \<and>
   snd (fst (get_planet 9223372036854775808 demo_store)) = 500 \<and>
   json_field ''id'' (fst (fst (get_person 1 demo_store))) = Some (JInt 1) \<and>
   snd (fst (get_person 5 demo_store)) = 404"
  using get_by_id_spec [where s = demo_store and p = 2 and q = 1]
    get_by_id_spec [where s = demo_store and p = 3 and q = 5]
    get_by_id_spec [where s = demo_store and p = 9223372036854775807 and q = 5]
    get_by_id_spec [where s = demo_store and p = 9223372036854775808 and q = 5]
  by (simp add: demo_defs Planet_serialize_def People_serialize_def)

text \<open>
  Claim C8 as the spec words it fails at an id beyond 64 bits: no row has the id, and
  the answer is 500, not 404.
\<close>

theorem get_by_id_overflow_counterexample:
  "map planet_id (planet_rows demo_store) = [1, 2] \<and>
   get_planet 9223372036854775808 demo_store = ((Html, 500), demo_store) \<and>
   map people_id (people_rows demo_store) = [1] \<and>
   get_person 9223372036854775808 demo_store = ((Html, 500), demo_store)"
  by (simp add: demo_defs)

section \<open>Removing a favourite\<close>

lemma remove_favorite_planet_500:
  assumes "\<not> sqlite_integer (int t)"
  shows "remove_favorite_planet u t s = ((Html, 500), s)"
  using assms by (simp add: remove_favorite_planet_def bind_integer_def internal_server_error_def)

lemma remove_favorite_planet_404:
  assumes "sqlite_integer (int t)"
    and "\<forall>f\<in>set (favorite_rows s).
           \<not> (favorite_user_id f = u \<and> favorite_planet_id f = Some (int t))"
  shows "remove_favorite_planet u t s =
           ((Json (JObj [(''error'', JStr ''Favorite planet not found'')]), 404), s)"
proof -
  have "first_row (filter (\<lambda>f. favorite_user_id f = u \<and> favorite_planet_id f = Some (int t))
          (favorite_rows s)) = None"
    using assms(2) by (simp only: first_row_filter_None)
  with assms(1) show ?thesis
    by (simp add: remove_favorite_planet_def bind_integer_def)
qed

lemma remove_favorite_planet_200:
  assumes "sqlite_integer (int t)"
    and "first_row (filter (\<lambda>f. favorite_user_id f = u \<and> favorite_planet_id f = Some (int t))
             (favorite_rows s)) = Some fav"
  shows "remove_favorite_planet u t s =
           ((Json (JList (map Favorite_serialize
               (filter (\<lambda>f. favorite_user_id f = u)
                  (delete_favorite fav (favorite_rows s))))), 200),
            s\<lparr>favorite_rows := delete_favorite fav (favorite_rows s)\<rparr>)"
  using assms by (simp add: remove_favorite_planet_def bind_integer_def Let_def favorites_of_def)

lemma remove_favorite_person_500:
  assumes "\<not> sqlite_integer (int t)"
  shows "remove_favorite_person u t s = ((Html, 500), s)"
  using assms by (simp add: remove_favorite_person_def bind_integer_def internal_server_error_def)

lemma remove_favorite_person_404:
  assumes "sqlite_integer (int t)"
    and "\<forall>f\<in>set (favorite_rows s).
           \<not> (favorite_user_id f = u \<and> favorite_people_id f = Some (int t))"
  shows "remove_favorite_person u t s =
           ((Json (JObj [(''error'', JStr ''Favorite person not found'')]), 404), s)"
proof -
  have "first_row (filter (\<lambda>f. favorite_user_id f = u \<and> favorite_people_id f = Some (int t))
          (favorite_rows s)) = None"
    using assms(2) by (simp only: first_row_filter_None)
  with assms(1) show ?thesis
    by (simp add: remove_favorite_person_def bind_integer_def)
qed

lemma remove_favorite_person_200:
  assumes "sqlite_integer (int t)"
    and "first_row (filter (\<lambda>f. favorite_user_id f = u \<and> favorite_people_id f = Some (int t))
             (favorite_rows s)) = Some fav"
  shows "remove_favorite_person u t s =
           ((Json (JList (map Favorite_serialize
               (filter (\<lambda>f. favorite_user_id f = u)
                  (delete_favorite fav (favorite_rows s))))), 200),
            s\<lparr>favorite_rows := delete_favorite fav (favorite_rows s)\<rparr>)"
  using assms by (simp add: remove_favorite_person_def bind_integer_def Let_def favorites_of_def)

text \<open>Where a filter keeps at most one row, that row is the first one it keeps.\<close>

lemma only_row:
  assumes "length (filter P rows) \<le> 1" and "first_row (filter P rows) = Some r"
    and "x \<in> set rows" and "P x"
  shows "x = r"
proof -
  from assms(1,2) have "filter P rows = [r]"
    by (cases "filter P rows") (auto simp: first_row_def)
  moreover from assms(3,4) have "x \<in> set (filter P rows)"
    by simp
  ultimately show ?thesis by simp
qed

lemma delete_favorite_gone: "fav \<notin> set (delete_favorite fav rows)"
  by (simp add: delete_favorite_def)

lemma delete_favorite_subset: "set (delete_favorite fav rows) \<subseteq> set rows"
  by (auto simp: delete_favorite_def)

lemma delete_favorite_remove1:
  "distinct (map favorite_id rows) \<Longrightarrow> fav \<in> set rows \<Longrightarrow>
   delete_favorite fav rows = remove1 fav rows"
  unfolding delete_favorite_def
proof (induction rows)
  case Nil
  then show ?case by simp
next
  case (Cons r rows)
  show ?case
  proof (cases "r = fav")
    case True
    with Cons.prems(1) have "\<forall>f\<in>set rows. favorite_id f \<noteq> favorite_id fav"
      by (metis distinct.simps(2) image_eqI list.simps(9) set_map)
    then have "filter (\<lambda>f. favorite_id f \<noteq> favorite_id fav) rows = rows"
      by (simp add: filter_id_conv)
    with True show ?thesis by simp
  next
    case False
    with Cons.prems have "fav \<in> set rows" and "favorite_id r \<noteq> favorite_id fav"
      by auto
    with Cons False show ?thesis by simp
  qed
qed

text \<open>
  Claim C4, as the code has it. For the authenticated user \<open>u\<close> and a target id
  \<open>t\<close> that fits 64 bits: when \<open>u\<close> has no favourite for planet \<open>t\<close>,
  \<^verbatim>\<open>DELETE /api/favorite/planet/t\<close> answers 404 and the store is unchanged; when
  \<open>u\<close> has one, the handler deletes the first such row \<open>fav\<close> (the rows with its
  primary key leave the table, which is \<open>fav\<close> alone when primary keys are distinct) and
  answers 200 with the serialised list of the rows of the new table whose user is
  \<open>u\<close>. That list has no favourite for planet \<open>t\<close> any more when \<open>u\<close> had one
  favourite for \<open>t\<close> only; a second one stays in the list. For an id beyond 64 bits the
  query raises in the driver: the answer is 500 and the store is unchanged. The same
  holds for people and \<^verbatim>\<open>DELETE /api/favorite/people/t\<close>.
\<close>

theorem remove_favorite_spec:
  "(if \<not> sqlite_integer (int t) then
      snd (fst (remove_favorite_planet u t s)) = 500 \<and> snd (remove_favorite_planet u t s) = s
    else if \<not> (\<exists>f\<in>set (favorite_rows s).
                 favorite_user_id f = u \<and> favorite_planet_id f = Some (int t)) then
      snd (fst (remove_favorite_planet u t s)) = 404 \<and> snd (remove_favorite_planet u t s) = s
    else
      (\<exists>fav\<in>set (favorite_rows s).
         first_row (planet_favorites u (int t) s) = Some fav \<and>
         favorite_user_id fav = u \<and> favorite_planet_id fav = Some (int t) \<and>
         snd (remove_favorite_planet u t s) =
           s\<lparr>favorite_rows := delete_favorite fav (favorite_rows s)\<rparr> \<and>
         fav \<notin> set (favorite_rows (snd (remove_favorite_planet u t s))) \<and>
         (distinct (map favorite_id (favorite_rows s)) \<longrightarrow>
            favorite_rows (snd (remove_favorite_planet u t s)) = remove1 fav (favorite_rows s))) \<and>
      fst (remove_favorite_planet u t s) =
        (Json (JList (map Favorite_serialize
           (filter (\<lambda>f. favorite_user_id f = u)
              (favorite_rows (snd (remove_favorite_planet u t s)))))), 200) \<and>
      (length (planet_favorites u (int t) s) \<le> 1 \<longrightarrow>
         \<not> (\<exists>f\<in>set (favorite_rows (snd (remove_favorite_planet u t s))).
              favorite_user_id f = u \<and> favorite_planet_id f = Some (int t))))
   \<and>
   (if \<not> sqlite_integer (int t) then
      snd (fst (remove_favorite_person u t s)) = 500 \<and> snd (remove_favorite_person u t s) = s
    else if \<not> (\<exists>f\<in>set (favorite_rows s).
                 favorite_user_id f = u \<and> favorite_people_id f = Some (int t)) then
      snd (fst (remove_favorite_person u t s)) = 404 \<and> snd (remove_favorite_person u t s) = s
    else
      (\<exists>fav\<in>set (favorite_rows s).
         first_row (people_favorites u (int t) s) = Some fav \<and>
         favorite_user_id fav = u \<and> favorite_people_id fav = Some (int t) \<and>
         snd (remove_favorite_person u t s) =
           s\<lparr>favorite_rows := delete_favorite fav (favorite_rows s)\<rparr> \<and>
         fav \<notin> set (favorite_rows (snd (remove_favorite_person u t s))) \<and>
         (distinct (map favorite_id (favorite_rows s)) \<longrightarrow>
            favorite_rows (snd (remove_favorite_person u t s)) = remove1 fav (favorite_rows s))) \<and>
      fst (remove_favorite_person u t s) =
        (Json (JList (map Favorite_serialize
           (filter (\<lambda>f. favorite_user_id f = u)
              (favorite_rows (snd (remove_favorite_person u t s)))))), 200) \<and>
      (length (people_favorites u (int t) s) \<le> 1 \<longrightarrow>
         \<not> (\<exists>f\<in>set (favorite_rows (snd (remove_favorite_person u t s))).
              favorite_user_id f = u \<and> favorite_people_id f = Some (int t))))"
  (is "?for_planets \<and> ?for_people")
proof (intro conjI)
  let ?P = "\<lambda>f. favorite_user_id f = u \<and> favorite_planet_id f = Some (int t)"
  show ?for_planets
  proof (cases "sqlite_integer (int t)")
    case False
    then show ?thesis
      by (simp add: remove_favorite_planet_500)
  next
    case range: True
    show ?thesis
    proof (cases "first_row (filter ?P (favorite_rows s))")
      case None
      then have none: "\<forall>f\<in>set (favorite_rows s). \<not> ?P f"
        by (simp only: first_row_filter_None)
      with range show ?thesis
        by (simp add: remove_favorite_planet_404)
    next
      case (Some fav)
      note run = remove_favorite_planet_200 [OF range Some]
      from first_row_filter_Some [OF Some] have fav: "fav \<in> set (favorite_rows s)" "?P fav"
        by simp_all
      then have ex: "\<exists>f\<in>set (favorite_rows s). ?P f"
        by blast
      have gone: "length (planet_favorites u (int t) s) \<le> 1 \<Longrightarrow>
          f \<in> set (delete_favorite fav (favorite_rows s)) \<Longrightarrow> ?P f \<Longrightarrow> False" for f
      proof -
        assume one: "length (planet_favorites u (int t) s) \<le> 1"
          and f: "f \<in> set (delete_favorite fav (favorite_rows s))" and "?P f"
        from f have "f \<in> set (favorite_rows s)"
          using delete_favorite_subset by blast
        with one Some \<open>?P f\<close> have "f = fav"
          unfolding planet_favorites_def by (intro only_row [where P = ?P]) auto
        with f show False
          by (simp add: delete_favorite_gone)
      qed
      have "\<exists>fav\<in>set (favorite_rows s).
           first_row (planet_favorites u (int t) s) = Some fav \<and>
           favorite_user_id fav = u \<and> favorite_planet_id fav = Some (int t) \<and>
           snd (remove_favorite_planet u t s) =
             s\<lparr>favorite_rows := delete_favorite fav (favorite_rows s)\<rparr> \<and>
           fav \<notin> set (favorite_rows (snd (remove_favorite_planet u t s))) \<and>
           (distinct (map favorite_id (favorite_rows s)) \<longrightarrow>
              favorite_rows (snd (remove_favorite_planet u t s)) = remove1 fav (favorite_rows s))"
        using fav Some by (intro bexI [of _ fav])
          (simp_all add: run delete_favorite_gone delete_favorite_remove1 planet_favorites_def)
      moreover have "fst (remove_favorite_planet u t s) =
          (Json (JList (map Favorite_serialize
             (filter (\<lambda>f. favorite_user_id f = u)
                (favorite_rows (snd (remove_favorite_planet u t s)))))), 200)"
        by (simp add: run)
      moreover have "length (planet_favorites u (int t) s) \<le> 1 \<longrightarrow>
           \<not> (\<exists>f\<in>set (favorite_rows (snd (remove_favorite_planet u t s))).
                favorite_user_id f = u \<and> favorite_planet_id f = Some (int t))"
        using gone by (auto simp: run)
      ultimately show ?thesis
        using ex range by simp
    qed
  qed
next
  let ?P = "\<lambda>f. favorite_user_id f = u \<and> favorite_people_id f = Some (int t)"
  show ?for_people
  proof (cases "sqlite_integer (int t)")
    case False
    then show ?thesis
      by (simp add: remove_favorite_person_500)
  next
    case range: True
    show ?thesis
    proof (cases "first_row (filter ?P (favorite_rows s))")
      case None
      then have none: "\<forall>f\<in>set (favorite_rows s). \<not> ?P f"
        by (simp only: first_row_filter_None)
      with range show ?thesis
        by (simp add: remove_favorite_person_404)
    next
      case (Some fav)
      note run = remove_favorite_person_200 [OF range Some]
      from first_row_filter_Some [OF Some] have fav: "fav \<in> set (favorite_rows s)" "?P fav"
        by simp_all
      then have ex: "\<exists>f\<in>set (favorite_rows s). ?P f"
        by blast
      have gone: "length (people_favorites u (int t) s) \<le> 1 \<Longrightarrow>
          f \<in> set (delete_favorite fav (favorite_rows s)) \<Longrightarrow> ?P f \<Longrightarrow> False" for f
      proof -
        assume one: "length (people_favorites u (int t) s) \<le> 1"
          and f: "f \<in> set (delete_favorite fav (favorite_rows s))" and "?P f"
        from f have "f \<in> set (favorite_rows s)"
          using delete_favorite_subset by blast
        with one Some \<open>?P f\<close> have "f = fav"
          unfolding people_favorites_def by (intro only_row [where P = ?P]) auto
        with f show False
          by (simp add: delete_favorite_gone)
      qed
      have "\<exists>fav\<in>set (favorite_rows s).
           first_row (people_favorites u (int t) s) = Some fav \<and>
           favorite_user_id fav = u \<and> favorite_people_id fav = Some (int t) \<and>
           snd (remove_favorite_person u t s) =
             s\<lparr>favorite_rows := delete_favorite fav (favorite_rows s)\<rparr> \<and>
           fav \<notin> set (favorite_rows (snd (remove_favorite_person u t s))) \<and>
           (distinct (map favorite_id (favorite_rows s)) \<longrightarrow>
              favorite_rows (snd (remove_favorite_person u t s)) = remove1 fav (favorite_rows s))"
        using fav Some by (intro bexI [of _ fav])
          (simp_all add: run delete_favorite_gone delete_favorite_remove1 people_favorites_def)
      moreover have "fst (remove_favorite_person u t s) =
          (Json (JList (map Favorite_serialize
             (filter (\<lambda>f. favorite_user_id f = u)
                (favorite_rows (snd (remove_favorite_person u t s)))))), 200)"
        by (simp add: run)
      moreover have "length (people_favorites u (int t) s) \<le> 1 \<longrightarrow>
           \<not> (\<exists>f\<in>set (favorite_rows (snd (remove_favorite_person u t s))).
                favorite_user_id f = u \<and> favorite_people_id f = Some (int t))"
        using gone by (auto simp: run)
      ultimately show ?thesis
        using ex range by simp
    qed
  qed
qed

theorem remove_favorite_spec_witness:
  "length (planet_favorites 1 1 demo_favorites) = 1 \<and>
   length (people_favorites 1 1 demo_favorites) = 1 \<and>
   distinct (map favorite_id (favorite_rows demo_favorites)) \<and>
   fst (remove_favorite_planet 1 1 demo_favorites) =
     (Json (JList [JObj [(''id'', JInt 2), (''user_id'', JInt 1), (''people_id'', JInt 1),
                         (''planet_id'', JNull)]]), 200) \<and>
   map favorite_id (favorite_rows (snd (remove_favorite_planet 1 1 demo_favorites))) = [2, 3] \<and>
   remove_favorite_planet 1 2 demo_favorites =
     ((Json (JObj [(''error'', JStr ''Favorite planet not found'')]), 404), demo_favorites) \<and>
   remove_favorite_planet 1 9223372036854775808 demo_favorites =
     ((Html, 500), demo_favorites) \<and>
   snd (fst (remove_favorite_person 1 1 demo_favorites)) = 200 \<and>
   map favorite_id (favorite_rows (snd (remove_favorite_person 1 1 demo_favorites))) = [1, 3] \<and>
   snd (fst (remove_favorite_person 2 1 demo_favorites)) = 404"
  using remove_favorite_spec [where s = demo_favorites and u = 1 and t = 1]
    remove_favorite_spec [where s = demo_favorites and u = 1 and t = 2]
    remove_favorite_spec [where s = demo_favorites and u = 1 and t = 9223372036854775808]
    remove_favorite_spec [where s = demo_favorites and u = 2 and t = 1]
  by (simp add: demo_defs Favorite_serialize_def json_nullable_int_def)

text \<open>
  Claim C4 as the spec words it fails twice. Where user 1 has planet 1 as a favourite
  in two rows, the handler deletes one, answers 200, and the list it returns still has
  planet 1. And for an id beyond 64 bits, for which the user has no favourite, the answer
  is 500, not 404.
\<close>

theorem remove_favorite_counterexample:
  "map favorite_user_id (favorite_rows demo_duplicates) = [1, 1] \<and>
   map favorite_planet_id (favorite_rows demo_duplicates) = [Some 1, Some 1] \<and>
   fst (remove_favorite_planet 1 1 demo_duplicates) =
     (Json (JList [JObj [(''id'', JInt 2), (''user_id'', JInt 1), (''people_id'', JNull),
                         (''planet_id'', JInt 1)]]), 200) \<and>
   favorite_rows demo_store = [] \<and>
   remove_favorite_planet 1 9223372036854775808 demo_store = ((Html, 500), demo_store)"
  by (simp add: demo_defs Favorite_serialize_def json_nullable_int_def)

section \<open>Login\<close>



section \<open>Signup\<close>


lemma signup_not_object:
  assumes "\<forall>kvs. data \<noteq> JObj kvs"
  shows "signup bind data s = ((Html, 500), s)"
  using assms by (cases data) (simp_all add: signup_def py_dict_get_def internal_server_error_def)

text \<open>What \<open>signup\<close> does with the two members of an object, branch by branch.\<close>

lemma signup_object:
  "signup bind (JObj kvs) s =
     (if py_not (member_value kvs ''email'') \<or> py_not (member_value kvs ''password'') then
        ((Json (JObj [(''error'', JStr ''Missing email or password'')]), 400), s)
      else case sql_text bind (member_value kvs ''email'') of
        Inl e \<Rightarrow> ((Html, 500), s)
      | Inr email_text \<Rightarrow>
          if \<exists>u\<in>set (user_rows s). user_email u = email_text then
            ((Json (JObj [(''error'', JStr ''Email already exists'')]), 400), s)
          else case sql_text bind (member_value kvs ''password'') of
            Inl e \<Rightarrow> ((Html, 500), s)
          | Inr password_text \<Rightarrow>
              ((Json (JObj [(''msg'', JStr ''User created'')]), 201),
               s\<lparr>user_rows := user_rows s @
                   [\<lparr>user_id = next_id (map user_id (user_rows s)), user_email = email_text,
                     user_password = password_text, user_is_active = True\<rparr>]\<rparr>))"
proof -
  let ?email = "member_value kvs ''email''" and ?password = "member_value kvs ''password''"
  show ?thesis
  proof (cases "py_not ?email \<or> py_not ?password")
    case True
    then show ?thesis
      by (simp add: signup_def py_dict_get_def)
  next
    case truthy: False
    show ?thesis
    proof (cases "sql_text bind ?email")
      case (Inl e)
      with truthy show ?thesis
        by (simp add: signup_def py_dict_get_def internal_server_error_def)
    next
      case (Inr email_text)
      let ?found = "first_row (filter (\<lambda>u. user_email u = email_text) (user_rows s))"
      show ?thesis
      proof (cases "\<exists>u\<in>set (user_rows s). user_email u = email_text")
        case True
        from first_row_filter_ex [OF this] have "?found \<noteq> None"
          by auto
        with truthy Inr True show ?thesis
          by (simp add: signup_def py_dict_get_def)
      next
        case False
        then have none: "?found = None"
          by (simp only: first_row_filter_None) simp
        show ?thesis
        proof (cases "sql_text bind ?password")
          case (Inl e)
          with truthy Inr False none show ?thesis
            by (simp add: signup_def py_dict_get_def internal_server_error_def)
        next
          case password: (Inr password_text)
          with truthy Inr False none show ?thesis
            by (simp add: signup_def py_dict_get_def Let_def)
        qed
      qed
    qed
  qed
qed




section \<open>What a request does to the favourites table\<close>

lemma add_favorite_planet_rows:
  "favorite_rows (snd (add_favorite_planet u p s)) = favorite_rows s \<or>
   (\<forall>f\<in>set (favorite_rows s).
      \<not> (favorite_user_id f = u \<and> favorite_planet_id f = Some (int p))) \<and>
   favorite_rows (snd (add_favorite_planet u p s)) = favorite_rows s @
     [\<lparr>favorite_id = next_id (map favorite_id (favorite_rows s)), favorite_user_id = u,
       favorite_people_id = None, favorite_planet_id = Some (int p)\<rparr>]"
proof -
  let ?range = "sqlite_integer (int p)"
  let ?planet = "\<exists>pl\<in>set (planet_rows s). planet_id pl = int p"
  let ?dup = "\<exists>f\<in>set (favorite_rows s).
      favorite_user_id f = u \<and> favorite_planet_id f = Some (int p)"
  consider (overflow) "\<not> ?range" | (missing) ?range "\<not> ?planet" | (dup) ?range ?planet ?dup
    | (fresh) ?range ?planet "\<not> ?dup"
    by blast
  then show ?thesis
  proof cases
    case overflow
    then show ?thesis by (simp add: add_favorite_planet_500)
  next
    case missing
    then show ?thesis by (simp add: add_favorite_planet_404)
  next
    case dup
    then show ?thesis by (simp add: add_favorite_planet_400)
  next
    case fresh
    then have none: "\<forall>f\<in>set (favorite_rows s).
        \<not> (favorite_user_id f = u \<and> favorite_planet_id f = Some (int p))"
      by blast
    show ?thesis
      using none by (simp add: add_favorite_planet_200 [OF fresh(1,2) none])
  qed
qed

lemma add_favorite_person_rows:
  "favorite_rows (snd (add_favorite_person u q s)) = favorite_rows s \<or>
   (\<forall>f\<in>set (favorite_rows s).
      \<not> (favorite_user_id f = u \<and> favorite_people_id f = Some (int q))) \<and>
   favorite_rows (snd (add_favorite_person u q s)) = favorite_rows s @
     [\<lparr>favorite_id = next_id (map favorite_id (favorite_rows s)), favorite_user_id = u,
       favorite_people_id = Some (int q), favorite_planet_id = None\<rparr>]"
proof -
  let ?range = "sqlite_integer (int q)"
  let ?person = "\<exists>pe\<in>set (people_rows s). people_id pe = int q"
  let ?dup = "\<exists>f\<in>set (favorite_rows s).
      favorite_user_id f = u \<and> favorite_people_id f = Some (int q)"
  consider (overflow) "\<not> ?range" | (missing) ?range "\<not> ?person" | (dup) ?range ?person ?dup
    | (fresh) ?range ?person "\<not> ?dup"
    by blast
  then show ?thesis
  proof cases
    case overflow
    then show ?thesis by (simp add: add_favorite_person_500)
  next
    case missing
    then show ?thesis by (simp add: add_favorite_person_404)
  next
    case dup
    then show ?thesis by (simp add: add_favorite_person_400)
  next
    case fresh
    then have none: "\<forall>f\<in>set (favorite_rows s).
        \<not> (favorite_user_id f = u \<and> favorite_people_id f = Some (int q))"
      by blast
    show ?thesis
      using none by (simp add: add_favorite_person_200 [OF fresh(1,2) none])
  qed
qed

lemma remove_favorite_planet_rows:
  "favorite_rows (snd (remove_favorite_planet u t s)) = favorite_rows s \<or>
   (\<exists>fav. favorite_rows (snd (remove_favorite_planet u t s)) =
      delete_favorite fav (favorite_rows s))"
  by (cases "first_row (filter (\<lambda>f. favorite_user_id f = u \<and>
        favorite_planet_id f = Some (int t)) (favorite_rows s))")
    (auto simp: remove_favorite_planet_def bind_integer_def internal_server_error_def Let_def)

lemma remove_favorite_person_rows:
  "favorite_rows (snd (remove_favorite_person u t s)) = favorite_rows s \<or>
   (\<exists>fav. favorite_rows (snd (remove_favorite_person u t s)) =
      delete_favorite fav (favorite_rows s))"
  by (cases "first_row (filter (\<lambda>f. favorite_user_id f = u \<and>
        favorite_people_id f = Some (int t)) (favorite_rows s))")
    (auto simp: remove_favorite_person_def bind_integer_def internal_server_error_def Let_def)

lemma signup_favorite_rows: "favorite_rows (snd (signup bind data s)) = favorite_rows s"
proof (cases "\<exists>kvs. data = JObj kvs")
  case True
  then obtain kvs where "data = JObj kvs" ..
  then show ?thesis
    by (simp add: signup_object split: sum.split)
next
  case False
  then show ?thesis
    by (simp add: signup_not_object)
qed

lemma login_store: "snd (login tok data s) = s"
  by (simp add: login_def Let_def split: option.split)

lemma get_person_store: "snd (get_person q s) = s"
  by (simp add: get_person_def internal_server_error_def split: sum.split option.split)

lemma get_planet_store: "snd (get_planet p s) = s"
  by (simp add: get_planet_def internal_server_error_def split: sum.split option.split)

text \<open>
  Every request leaves the favourites table as it was, or appends one row that no row
  of the same user and target preceded, or deletes the rows with one primary key.
\<close>

lemma dispatch_favorite_rows:
  "favorite_rows (snd (dispatch tok bind r s)) = favorite_rows s \<or>
   (\<exists>u p. (\<forall>f\<in>set (favorite_rows s).
              \<not> (favorite_user_id f = u \<and> favorite_planet_id f = Some p)) \<and>
      favorite_rows (snd (dispatch tok bind r s)) = favorite_rows s @
        [\<lparr>favorite_id = next_id (map favorite_id (favorite_rows s)), favorite_user_id = u,
          favorite_people_id = None, favorite_planet_id = Some p\<rparr>]) \<or>
   (\<exists>u q. (\<forall>f\<in>set (favorite_rows s).
              \<not> (favorite_user_id f = u \<and> favorite_people_id f = Some q)) \<and>
      favorite_rows (snd (dispatch tok bind r s)) = favorite_rows s @
        [\<lparr>favorite_id = next_id (map favorite_id (favorite_rows s)), favorite_user_id = u,
          favorite_people_id = Some q, favorite_planet_id = None\<rparr>]) \<or>
   (\<exists>fav. favorite_rows (snd (dispatch tok bind r s)) = delete_favorite fav (favorite_rows s))"
proof (cases r)
  case (AddFavoritePlanet u p)
  with add_favorite_planet_rows [of u p s] show ?thesis
    by auto
next
  case (AddFavoritePerson u q)
  with add_favorite_person_rows [of u q s] show ?thesis
    by auto
next
  case (RemoveFavoritePlanet u t)
  with remove_favorite_planet_rows [of u t s] show ?thesis
    by auto
next
  case (RemoveFavoritePerson u t)
  with remove_favorite_person_rows [of u t s] show ?thesis
    by auto
qed (simp_all add: handle_hello_def signup_favorite_rows login_store get_people_def
      get_person_store get_planets_def get_planet_store get_users_def get_favorites_def)

section \<open>At most one favourite per user and target\<close>

lemma length_filter_delete_favorite:
  "length (filter P (delete_favorite fav rows)) \<le> length (filter P rows)"
  unfolding delete_favorite_def by (induction rows) auto

lemma length_filter_snoc:
  "length (filter P (rows @ [r])) = length (filter P rows) + (if P r then 1 else 0)"
  by simp

lemma length_filter_none: "\<forall>r\<in>set rows. \<not> P r \<Longrightarrow> length (filter P rows) = 0"
  by (simp add: filter_empty_conv)

lemma dispatch_unique:
  assumes planet: "\<And>u p. length (planet_favorites u p s) \<le> 1"
    and people: "\<And>u q. length (people_favorites u q s) \<le> 1"
  shows "length (planet_favorites u p (snd (dispatch tok bind r s))) \<le> 1 \<and>
         length (people_favorites u q (snd (dispatch tok bind r s))) \<le> 1"
proof -
  let ?rows = "favorite_rows s" and ?rows' = "favorite_rows (snd (dispatch tok bind r s))"
  let ?P = "\<lambda>f. favorite_user_id f = u \<and> favorite_planet_id f = Some p"
  let ?Q = "\<lambda>f. favorite_user_id f = u \<and> favorite_people_id f = Some q"
  have P: "length (filter ?P ?rows) \<le> 1" and Q: "length (filter ?Q ?rows) \<le> 1"
    using planet [of u p] people [of u q]
    by (simp_all add: planet_favorites_def people_favorites_def)
  from dispatch_favorite_rows [of tok bind r s]
  consider (same) "?rows' = ?rows"
    | (planet) u' p' where
        "\<forall>f\<in>set ?rows. \<not> (favorite_user_id f = u' \<and> favorite_planet_id f = Some p')"
        "?rows' = ?rows @ [\<lparr>favorite_id = next_id (map favorite_id ?rows), favorite_user_id = u',
           favorite_people_id = None, favorite_planet_id = Some p'\<rparr>]"
    | (person) u' q' where
        "\<forall>f\<in>set ?rows. \<not> (favorite_user_id f = u' \<and> favorite_people_id f = Some q')"
        "?rows' = ?rows @ [\<lparr>favorite_id = next_id (map favorite_id ?rows), favorite_user_id = u',
           favorite_people_id = Some q', favorite_planet_id = None\<rparr>]"
    | (deleted) fav where "?rows' = delete_favorite fav ?rows"
    by blast
  then have "length (filter ?P ?rows') \<le> 1 \<and> length (filter ?Q ?rows') \<le> 1"
  proof cases
    case same
    with P Q show ?thesis by simp
  next
    case planet
    show ?thesis
    proof (cases "u' = u \<and> p' = p")
      case True
      with planet(1) have "length (filter ?P ?rows) = 0"
        by (intro length_filter_none) simp
      with planet(2) Q show ?thesis
        by (simp add: length_filter_snoc)
    next
      case False
      with planet(2) P Q show ?thesis
        by (auto simp: length_filter_snoc)
    qed
  next
    case person
    show ?thesis
    proof (cases "u' = u \<and> q' = q")
      case True
      with person(1) have "length (filter ?Q ?rows) = 0"
        by (intro length_filter_none) simp
      with person(2) P show ?thesis
        by (simp add: length_filter_snoc)
    next
      case False
      with person(2) P Q show ?thesis
        by (auto simp: length_filter_snoc)
    qed
  next
    case deleted
    have "length (filter ?P ?rows') \<le> length (filter ?P ?rows)"
      and "length (filter ?Q ?rows') \<le> length (filter ?Q ?rows)"
      unfolding deleted by (rule length_filter_delete_favorite)+
    with P Q show ?thesis by linarith
  qed
  then show ?thesis
    by (simp add: planet_favorites_def people_favorites_def)
qed

lemma serve_unique:
  assumes "\<And>u p. length (planet_favorites u p s) \<le> 1"
    and "\<And>u q. length (people_favorites u q s) \<le> 1"
  shows "length (planet_favorites u p (serve tok bind s rs)) \<le> 1 \<and>
         length (people_favorites u q (serve tok bind s rs)) \<le> 1"
  using assms
proof (induction rs arbitrary: s)
  case Nil
  then show ?case by simp
next
  case (Cons r rs)
  have "length (planet_favorites u' p' (snd (dispatch tok bind r s))) \<le> 1"
    and "length (people_favorites u' q' (snd (dispatch tok bind r s))) \<le> 1" for u' p' q'
    using dispatch_unique [OF Cons.prems, of u' p' tok bind r q'] by simp_all
  from Cons.IH [OF this] show ?case
    by simp
qed

text \<open>
  Claim C2. From a store with no favourites, after any sequence of requests served one
  after the other, the table has at most one favourite row of user \<open>u\<close> for planet
  \<open>p\<close> and at most one of user \<open>u\<close> for person \<open>q\<close>, for all \<open>u\<close>, \<open>p\<close>
  and \<open>q\<close>; and every handler preserves this: if it holds of a store for all users
  and targets, it holds of the store any single request leaves.
\<close>

theorem favorites_unique_invariant:
  "(favorite_rows s0 = [] \<longrightarrow>
      length (planet_favorites u p (serve tok bind s0 rs)) \<le> 1 \<and>
      length (people_favorites u q (serve tok bind s0 rs)) \<le> 1) \<and>
   ((\<forall>u p. length (planet_favorites u p s) \<le> 1 \<and> length (people_favorites u p s) \<le> 1) \<longrightarrow>
    (\<forall>u p. length (planet_favorites u p (snd (dispatch tok bind r s))) \<le> 1 \<and>
           length (people_favorites u p (snd (dispatch tok bind r s))) \<le> 1))"
proof (intro conjI impI allI)
  assume "favorite_rows s0 = []"
  then have "length (planet_favorites u' p' s0) \<le> 1" "length (people_favorites u' q' s0) \<le> 1"
    for u' p' q'
    by (simp_all add: planet_favorites_def people_favorites_def)
  from serve_unique [OF this]
  show "length (planet_favorites u p (serve tok bind s0 rs)) \<le> 1"
    and "length (people_favorites u q (serve tok bind s0 rs)) \<le> 1"
    by simp_all
next
  fix u' p'
  assume inv: "\<forall>u p. length (planet_favorites u p s) \<le> 1 \<and> length (people_favorites u p s) \<le> 1"
  then have "length (planet_favorites u p s) \<le> 1" "length (people_favorites u q s) \<le> 1"
    for u p q
    by simp_all
  from dispatch_unique [OF this]
  show "length (planet_favorites u' p' (snd (dispatch tok bind r s))) \<le> 1"
    and "length (people_favorites u' p' (snd (dispatch tok bind r s))) \<le> 1"
    by simp_all
qed

theorem favorites_unique_invariant_witness:
  "favorite_rows demo_store = [] \<and>
   map favorite_id (favorite_rows (serve demo_token demo_bind demo_store
      [AddFavoritePlanet 1 1, AddFavoritePlanet 1 1, AddFavoritePerson 1 1,
       AddFavoritePlanet 2 1, RemoveFavoritePlanet 1 1, AddFavoritePlanet 1 1])) = [2, 3, 4] \<and>
   length (planet_favorites 1 1 (serve demo_token demo_bind demo_store
      [AddFavoritePlanet 1 1, AddFavoritePlanet 1 1, AddFavoritePerson 1 1,
       AddFavoritePlanet 2 1, RemoveFavoritePlanet 1 1, AddFavoritePlanet 1 1])) = 1 \<and>
   length (people_favorites 1 1 (serve demo_token demo_bind demo_store
      [AddFavoritePlanet 1 1, AddFavoritePlanet 1 1, AddFavoritePerson 1 1,
       AddFavoritePlanet 2 1, RemoveFavoritePlanet 1 1, AddFavoritePlanet 1 1])) = 1 \<and>
   length (planet_favorites 2 2 (snd (dispatch demo_token demo_bind (AddFavoritePlanet 2 2)
      demo_favorites))) = 1 \<and>
   length (planet_favorites 1 1 (snd (dispatch demo_token demo_bind (AddFavoritePlanet 1 1)
      demo_favorites))) = 1"
  using favorites_unique_invariant [where ?s0.0 = demo_store and u = 1 and p = 1 and q = 1
      and tok = demo_token and bind = demo_bind and s = demo_favorites
      and r = "AddFavoritePlanet 2 2"
      and rs = "[AddFavoritePlanet 1 1, AddFavoritePlanet 1 1, AddFavoritePerson 1 1,
       AddFavoritePlanet 2 1, RemoveFavoritePlanet 1 1, AddFavoritePlanet 1 1]"]
  by (simp add: demo_defs)

section \<open>Every favourite has exactly one target\<close>

lemma dispatch_rows_one_target:
  "favorite_rows (snd (dispatch tok bind r s)) = favorite_rows s \<or>
   (\<exists>fav. one_target fav \<and> fav \<notin> set (favorite_rows s) \<and>
      favorite_rows (snd (dispatch tok bind r s)) = favorite_rows s @ [fav]) \<or>
   (\<exists>fav. favorite_rows (snd (dispatch tok bind r s)) = delete_favorite fav (favorite_rows s))"
proof -
  let ?k = "next_id (map favorite_id (favorite_rows s))"
  have fresh: "f \<notin> set (favorite_rows s)" if "favorite_id f = ?k" for f
    using that next_id_fresh [of "map favorite_id (favorite_rows s)"]
    by (metis image_eqI list.set_map)
  from dispatch_favorite_rows [of tok bind r s] show ?thesis
  proof (elim disjE exE conjE)
    fix u p
    assume "favorite_rows (snd (dispatch tok bind r s)) = favorite_rows s @
        [\<lparr>favorite_id = ?k, favorite_user_id = u, favorite_people_id = None,
          favorite_planet_id = Some p\<rparr>]"
    then show ?thesis
      using fresh by (intro disjI2 disjI1 exI [of _ "\<lparr>favorite_id = ?k, favorite_user_id = u,
          favorite_people_id = None, favorite_planet_id = Some p\<rparr>"]) (simp add: one_target_def)
  next
    fix u q
    assume "favorite_rows (snd (dispatch tok bind r s)) = favorite_rows s @
        [\<lparr>favorite_id = ?k, favorite_user_id = u, favorite_people_id = Some q,
          favorite_planet_id = None\<rparr>]"
    then show ?thesis
      using fresh by (intro disjI2 disjI1 exI [of _ "\<lparr>favorite_id = ?k, favorite_user_id = u,
          favorite_people_id = Some q, favorite_planet_id = None\<rparr>"]) (simp add: one_target_def)
  qed blast+
qed

lemma dispatch_one_target:
  assumes "\<forall>f\<in>set (favorite_rows s). one_target f"
  shows "\<forall>f\<in>set (favorite_rows (snd (dispatch tok bind r s))). one_target f"
  using dispatch_rows_one_target [of tok bind r s] assms
  by (auto simp: delete_favorite_def)

lemma serve_one_target:
  assumes "\<forall>f\<in>set (favorite_rows s). one_target f"
  shows "\<forall>f\<in>set (favorite_rows (serve tok bind s rs)). one_target f"
  using assms
proof (induction rs arbitrary: s)
  case Nil
  then show ?case by simp
next
  case (Cons r rs)
  from Cons.IH [OF dispatch_one_target [OF Cons.prems]] show ?case
    by simp
qed

text \<open>
  Claim C9. A row that \<open>add_favorite_planet\<close> leaves in the table and that was not
  there before has the planet id set and the people id null; one that
  \<open>add_favorite_person\<close> adds has the people id set and the planet id null. No
  handler changes a row: the table a request leaves is the one it found, or that one
  with a single new row appended, which has exactly one of the two ids set, or that one
  with the rows of one primary key deleted. So from a store with no favourites, after any
  sequence of requests, every favourite row has exactly one of people id and planet id
  set: none links to both, none to neither.
\<close>

theorem favorite_one_target:
  "(\<forall>f\<in>set (favorite_rows (snd (add_favorite_planet u p s))).
      f \<in> set (favorite_rows s) \<or>
      favorite_planet_id f = Some (int p) \<and> favorite_people_id f = None) \<and>
   (\<forall>f\<in>set (favorite_rows (snd (add_favorite_person u q s))).
      f \<in> set (favorite_rows s) \<or>
      favorite_people_id f = Some (int q) \<and> favorite_planet_id f = None) \<and>
   (favorite_rows (snd (dispatch tok bind r s)) = favorite_rows s \<or>
    (\<exists>fav. one_target fav \<and> fav \<notin> set (favorite_rows s) \<and>
       favorite_rows (snd (dispatch tok bind r s)) = favorite_rows s @ [fav]) \<or>
    (\<exists>fav. favorite_rows (snd (dispatch tok bind r s)) = delete_favorite fav (favorite_rows s))) \<and>
   (favorite_rows s0 = [] \<longrightarrow>
      (\<forall>f\<in>set (favorite_rows (serve tok bind s0 rs)).
         (favorite_people_id f = None) \<noteq> (favorite_planet_id f = None)))"
proof (intro conjI impI)
  show "\<forall>f\<in>set (favorite_rows (snd (add_favorite_planet u p s))).
      f \<in> set (favorite_rows s) \<or>
      favorite_planet_id f = Some (int p) \<and> favorite_people_id f = None"
    using add_favorite_planet_rows [of u p s] by auto
  show "\<forall>f\<in>set (favorite_rows (snd (add_favorite_person u q s))).
      f \<in> set (favorite_rows s) \<or>
      favorite_people_id f = Some (int q) \<and> favorite_planet_id f = None"
    using add_favorite_person_rows [of u q s] by auto
  show "favorite_rows (snd (dispatch tok bind r s)) = favorite_rows s \<or>
    (\<exists>fav. one_target fav \<and> fav \<notin> set (favorite_rows s) \<and>
       favorite_rows (snd (dispatch tok bind r s)) = favorite_rows s @ [fav]) \<or>
    (\<exists>fav. favorite_rows (snd (dispatch tok bind r s)) = delete_favorite fav (favorite_rows s))"
    by (rule dispatch_rows_one_target)
next
  assume "favorite_rows s0 = []"
  then have "\<forall>f\<in>set (favorite_rows s0). one_target f"
    by simp
  from serve_one_target [OF this]
  show "\<forall>f\<in>set (favorite_rows (serve tok bind s0 rs)).
         (favorite_people_id f = None) \<noteq> (favorite_planet_id f = None)"
    by (simp add: one_target_def)
qed

theorem favorite_one_target_witness:
  "favorite_rows demo_store = [] \<and>
   map (\<lambda>f. (favorite_people_id f, favorite_planet_id f))
     (favorite_rows (serve demo_token demo_bind demo_store
        [AddFavoritePlanet 1 1, AddFavoritePerson 1 1, AddFavoritePlanet 2 2,
         RemoveFavoritePlanet 1 1])) = [(Some 1, None), (None, Some 2)] \<and>
   list_all one_target (favorite_rows (serve demo_token demo_bind demo_store
        [AddFavoritePlanet 1 1, AddFavoritePerson 1 1, AddFavoritePlanet 2 2,
         RemoveFavoritePlanet 1 1])) \<and>
   map favorite_planet_id (favorite_rows (snd (add_favorite_planet 1 2 demo_favorites))) =
     [Some 1, None, Some 1, Some 2]"
  using favorite_one_target [where ?s0.0 = demo_store and tok = demo_token and bind = demo_bind
      and u = 1 and p = 2 and s = demo_favorites and q = 1 and r = "AddFavoritePlanet 1 2"
      and rs = "[AddFavoritePlanet 1 1, AddFavoritePerson 1 1, AddFavoritePlanet 2 2,
         RemoveFavoritePlanet 1 1]"]
  by (simp add: demo_defs one_target_def)

section \<open>Passwords never reach a response\<close>

lemma same_but_passwords_emails:
  assumes "same_but_passwords s t"
  shows "map user_email (user_rows s) = map user_email (user_rows t)"
proof -
  have "map user_email rows = map (\<lambda>x. fst (snd x)) (map user_public rows)" for rows
    by (simp add: user_public_def)
  with assms show ?thesis
    by (simp only: same_but_passwords_def)
qed

lemma same_but_passwords_ids:
  assumes "same_but_passwords s t"
  shows "map user_id (user_rows s) = map user_id (user_rows t)"
proof -
  have "map user_id rows = map fst (map user_public rows)" for rows
    by (simp add: user_public_def)
  with assms show ?thesis
    by (simp only: same_but_passwords_def)
qed

lemma same_but_passwords_serialize:
  assumes "same_but_passwords s t"
  shows "map User_serialize (user_rows s) = map User_serialize (user_rows t)"
proof -
  have "map User_serialize rows =
      map (\<lambda>x. JObj [(''id'', JInt (fst x)), (''email'', JStr (fst (snd x)))])
        (map user_public rows)" for rows
    by (simp add: user_public_def User_serialize_def)
  with assms show ?thesis
    by (simp only: same_but_passwords_def)
qed

lemma email_taken_iff:
  "(\<exists>u\<in>set rows. user_email u = e) = (e \<in> set (map user_email rows))"
  by auto

lemma signup_same_but_passwords:
  assumes "same_but_passwords s t"
  shows "fst (signup bind data s) = fst (signup bind data t) \<and>
         same_but_passwords (snd (signup bind data s)) (snd (signup bind data t))"
proof (cases "\<exists>kvs. data = JObj kvs")
  case True
  then obtain kvs where data: "data = JObj kvs" ..
  have taken: "(\<exists>u\<in>set (user_rows s). user_email u = e) =
      (\<exists>u\<in>set (user_rows t). user_email u = e)" for e
    unfolding email_taken_iff same_but_passwords_emails [OF assms] ..
  have ids: "next_id (map user_id (user_rows s)) = next_id (map user_id (user_rows t))"
    by (simp only: same_but_passwords_ids [OF assms])
  show ?thesis
    unfolding data signup_object taken ids using assms
    by (simp add: same_but_passwords_def user_public_def split: sum.split)
next
  case False
  with assms show ?thesis
    by (simp add: signup_not_object)
qed

lemma tables_same_but_passwords:
  assumes "same_but_passwords s t"
  shows "people_rows s = people_rows t" "planet_rows s = planet_rows t"
    "favorite_rows s = favorite_rows t"
  using assms by (simp_all add: same_but_passwords_def)

lemmas handler_defs = add_favorite_planet_def add_favorite_person_def
  remove_favorite_planet_def remove_favorite_person_def get_person_def get_planet_def
  internal_server_error_def Let_def favorites_of_def

lemma dispatch_same_but_passwords:
  assumes "same_but_passwords s t"
  shows "same_but_passwords (snd (dispatch tok bind r s)) (snd (dispatch tok bind r t))"
proof (cases r)
  case (Signup data)
  with signup_same_but_passwords [OF assms] show ?thesis by simp
next
  case (Login data)
  with assms show ?thesis by (simp add: login_store)
next
  case (AddFavoritePlanet u p)
  with assms show ?thesis
    by (simp add: handler_defs same_but_passwords_def split: sum.split option.split)
next
  case (AddFavoritePerson u q)
  with assms show ?thesis
    by (simp add: handler_defs same_but_passwords_def split: sum.split option.split)
next
  case (RemoveFavoritePlanet u p)
  with assms show ?thesis
    by (simp add: handler_defs same_but_passwords_def split: sum.split option.split)
next
  case (RemoveFavoritePerson u q)
  with assms show ?thesis
    by (simp add: handler_defs same_but_passwords_def split: sum.split option.split)
qed (use assms in \<open>simp_all add: handle_hello_def get_people_def get_person_store get_planets_def
      get_planet_store get_users_def get_favorites_def\<close>)

lemma dispatch_response_same_but_passwords:
  assumes "same_but_passwords s t" and "\<not> is_login r"
  shows "fst (dispatch tok bind r s) = fst (dispatch tok bind r t)"
proof (cases r)
  case (Signup data)
  with signup_same_but_passwords [OF assms(1)] show ?thesis by simp
next
  case (Login data)
  with assms(2) show ?thesis by simp
next
  case GetUsers
  with same_but_passwords_serialize [OF assms(1)] show ?thesis
    by (simp add: get_users_def)
next
  case (AddFavoritePlanet u p)
  then show ?thesis
    by (simp add: handler_defs tables_same_but_passwords [OF assms(1)]
          split: sum.split option.split)
next
  case (AddFavoritePerson u q)
  then show ?thesis
    by (simp add: handler_defs tables_same_but_passwords [OF assms(1)]
          split: sum.split option.split)
next
  case (RemoveFavoritePlanet u p)
  then show ?thesis
    by (simp add: handler_defs tables_same_but_passwords [OF assms(1)]
          split: sum.split option.split)
next
  case (RemoveFavoritePerson u q)
  then show ?thesis
    by (simp add: handler_defs tables_same_but_passwords [OF assms(1)]
          split: sum.split option.split)
qed (simp_all add: handle_hello_def get_people_def get_planets_def get_favorites_def
      handler_defs tables_same_but_passwords [OF assms(1)] split: sum.split option.split)

text \<open>
  Claim C10. \<open>User_serialize\<close> gives the id and the email of a row and does not depend
  on its password. For two stores that differ at most in the passwords of their users,
  every request but a login gets the same response (body and status) from both, the
  list of \<^verbatim>\<open>GET /api/users\<close> in particular; and the stores the request leaves
  again differ at most in passwords, so the same holds for every later request.
\<close>

theorem password_not_in_responses:
  "User_serialize (usr\<lparr>user_password := pw\<rparr>) = User_serialize usr \<and>
   (same_but_passwords s t \<longrightarrow>
      fst (get_users s) = fst (get_users t) \<and>
      (\<not> is_login r \<longrightarrow> fst (dispatch tok bind r s) = fst (dispatch tok bind r t)) \<and>
      same_but_passwords (snd (dispatch tok bind r s)) (snd (dispatch tok bind r t)))"
proof (intro conjI impI)
  show "User_serialize (usr\<lparr>user_password := pw\<rparr>) = User_serialize usr"
    by (simp add: User_serialize_def)
next
  assume same: "same_but_passwords s t"
  then show "fst (get_users s) = fst (get_users t)"
    by (simp add: get_users_def same_but_passwords_serialize)
  from same show "same_but_passwords (snd (dispatch tok bind r s)) (snd (dispatch tok bind r t))"
    by (rule dispatch_same_but_passwords)
  assume "\<not> is_login r"
  with same show "fst (dispatch tok bind r s) = fst (dispatch tok bind r t)"
    by (rule dispatch_response_same_but_passwords)
qed

theorem password_not_in_responses_witness:
  "same_but_passwords demo_store
     (demo_store\<lparr>user_rows := map (\<lambda>u. u\<lparr>user_password := ''secret''\<rparr>) (user_rows demo_store)\<rparr>) \<and>
   user_rows demo_store \<noteq> map (\<lambda>u. u\<lparr>user_password := ''secret''\<rparr>) (user_rows demo_store) \<and>
   fst (dispatch demo_token demo_bind GetUsers
     (demo_store\<lparr>user_rows := map (\<lambda>u. u\<lparr>user_password := ''secret''\<rparr>) (user_rows demo_store)\<rparr>)) =
     (Json (JList [JObj [(''id'', JInt 1), (''email'', JStr ''a@b.com'')]]), 200) \<and>
   fst (dispatch demo_token demo_bind GetUsers demo_store) =
     (Json (JList [JObj [(''id'', JInt 1), (''email'', JStr ''a@b.com'')]]), 200)"
proof -
  let ?t = "demo_store\<lparr>user_rows :=
      map (\<lambda>u. u\<lparr>user_password := ''secret''\<rparr>) (user_rows demo_store)\<rparr>"
  have same: "same_but_passwords demo_store ?t"
    by (simp add: same_but_passwords_def user_public_def demo_store_def)
  have "fst (dispatch demo_token demo_bind GetUsers demo_store) =
      (Json (JList [JObj [(''id'', JInt 1), (''email'', JStr ''a@b.com'')]]), 200)"
    by (simp add: get_users_def User_serialize_def demo_store_def)
  with same password_not_in_responses [where s = demo_store and t = ?t and r = GetUsers
      and tok = demo_token and bind = demo_bind]
  show ?thesis
    by (simp add: demo_store_def)
qed

section \<open>Primary keys stay distinct\<close>

text \<open>
  The store gives every new favourite a key larger than all keys in the table, so a
  table with distinct keys keeps them distinct under every request; this is the
  hypothesis under which \<open>delete_favorite\<close> removes a single row.
\<close>

lemma dispatch_favorite_ids_distinct:
  assumes "distinct (map favorite_id (favorite_rows s))"
  shows "distinct (map favorite_id (favorite_rows (snd (dispatch tok bind r s))))"
proof -
  have fresh: "next_id (map favorite_id (favorite_rows s)) \<notin> favorite_id ` set (favorite_rows s)"
    using next_id_fresh [of "map favorite_id (favorite_rows s)"] by simp
  from dispatch_favorite_rows [of tok bind r s] assms fresh show ?thesis
    by (auto simp: delete_favorite_def distinct_map_filter)
qed

lemma serve_favorite_ids_distinct:
  assumes "distinct (map favorite_id (favorite_rows s))"
  shows "distinct (map favorite_id (favorite_rows (serve tok bind s rs)))"
  using assms
proof (induction rs arbitrary: s)
  case Nil
  then show ?case by simp
next
  case (Cons r rs)
  from Cons.IH [OF dispatch_favorite_ids_distinct [OF Cons.prems]] show ?case
    by simp
qed

section \<open>The end-to-end run of the specification\<close>

text \<open>
  Signup, login, add planet 1, add it again, remove it, remove it again, on a store with
  the planets of \<open>demo_store\<close> and no user: the statuses are 201, 200, 200, 400, 200
  and 404, the first list of favourites holds planet 1 and the second is empty.
\<close>

lemma end_to_end_run:
  defines "s0 \<equiv> demo_store\<lparr>user_rows := []\<rparr>"
  defines "body \<equiv> JObj [(''email'', JStr ''a@b.com''), (''password'', JStr ''x'')]"
  defines "data \<equiv> \<lparr>body_email = Some ''a@b.com'', body_password = Some ''x''\<rparr>"
  defines "s1 \<equiv> snd (signup demo_bind body s0)"
  defines "s2 \<equiv> snd (add_favorite_planet 1 1 s1)"
  defines "s3 \<equiv> snd (remove_favorite_planet 1 1 s2)"
  shows "snd (fst (signup demo_bind body s0)) = 201"
    and "fst (login demo_token data s1) = (Json (JObj [(''token'', JStr ''token-1'')]), 200)"
    and "fst (add_favorite_planet 1 1 s1) =
           (Json (JList [JObj [(''id'', JInt 1), (''user_id'', JInt 1), (''people_id'', JNull),
                         (''planet_id'', JInt 1)]]), 200)"
    and "snd (fst (add_favorite_planet 1 1 s2)) = 400"
    and "fst (remove_favorite_planet 1 1 s2) = (Json (JList []), 200)"
    and "snd (fst (remove_favorite_planet 1 1 s3)) = 404"
  unfolding s0_def body_def data_def s1_def s2_def s3_def
  by (simp_all add: demo_defs signup_def py_dict_get_def member_value_def json_member_def
        sql_text_def login_def demo_token_def Favorite_serialize_def json_nullable_int_def)

end
